theory Spec2Isabelle
  imports Complex_Main "HOL-Library.Sublist"
begin

section \<open>The training executable \<open>object_detection/legacy/train.py\<close>\<close>

text \<open>
  The file consists of flag declarations and one function, \<open>main\<close>. The function is
  straight-line code over four kinds of effects: exceptions, calls into the file system,
  calls into collaborators (the config loaders, TensorFlow's cluster and server classes,
  the graph rewriter builder and the trainer) and printing. The embedding makes each of
  them explicit: an exception is a value, the file system is a component of the state,
  every call that leaves the file is appended to a trace, and the collaborators are the
  fields of a record of functions, so that every theorem holds for whatever they return.
\<close>

subsection \<open>Exceptions\<close>

text \<open>
  An exception value carries the names of the classes in the method resolution order of
  its class, most specific first, and its message. \<open>except C\<close> catches exactly the
  exceptions whose class has \<open>C\<close> in that order.
\<close>

datatype exn = Exn (exn_mro: "string list") (exn_msg: string)

definition isinstance :: "exn \<Rightarrow> string \<Rightarrow> bool" where
  "isinstance e c = (c \<in> set (exn_mro e))"

definition AssertionError :: "string \<Rightarrow> exn" where
  "AssertionError m = Exn [''AssertionError'', ''Exception'', ''BaseException''] m"

definition ValueError :: "string \<Rightarrow> exn" where
  "ValueError m = Exn [''ValueError'', ''Exception'', ''BaseException''] m"

definition JSONDecodeError :: "string \<Rightarrow> exn" where
  "JSONDecodeError m =
     Exn [''JSONDecodeError'', ''ValueError'', ''Exception'', ''BaseException''] m"

definition TypeError :: "string \<Rightarrow> exn" where
  "TypeError m = Exn [''TypeError'', ''Exception'', ''BaseException''] m"

definition AttributeError :: "string \<Rightarrow> exn" where
  "AttributeError m = Exn [''AttributeError'', ''Exception'', ''BaseException''] m"

definition KeyError :: "string \<Rightarrow> exn" where
  "KeyError m = Exn [''KeyError'', ''LookupError'', ''Exception'', ''BaseException''] m"

definition RuntimeError :: "string \<Rightarrow> exn" where
  "RuntimeError m = Exn [''RuntimeError'', ''Exception'', ''BaseException''] m"

definition NotADirectoryError :: "string \<Rightarrow> exn" where
  "NotADirectoryError m =
     Exn [''NotADirectoryError'', ''OSError'', ''Exception'', ''BaseException''] m"

definition NotFoundError :: "string \<Rightarrow> exn" where
  "NotFoundError m = Exn [''NotFoundError'', ''OpError'', ''Exception'', ''BaseException''] m"

definition AlreadyExistsError :: "string \<Rightarrow> exn" where
  "AlreadyExistsError m =
     Exn [''AlreadyExistsError'', ''OpError'', ''Exception'', ''BaseException''] m"

definition FailedPreconditionError :: "string \<Rightarrow> exn" where
  "FailedPreconditionError m =
     Exn [''FailedPreconditionError'', ''OpError'', ''Exception'', ''BaseException''] m"

subsection \<open>Values parsed from \<open>TF_CONFIG\<close>\<close>

text \<open>
  \<open>json.loads\<close> returns \<open>None\<close>, a bool, an int, a float, a str, a list or a dict
  with str keys. A dict is an association list read by \<open>map_of\<close>. The literals
  \<open>NaN\<close> and \<open>Infinity\<close>, which \<open>json.loads\<close> also accepts, are not represented.
\<close>

datatype json =
    JNull
  | JBool bool
  | JInt int
  | JFloat real
  | JStr string
  | JArr "json list"
  | JObj "(string \<times> json) list"

text \<open>The truth value Python gives an object in \<open>x and y\<close> and \<open>x or y\<close>.\<close>

fun py_truthy :: "json \<Rightarrow> bool" where
  "py_truthy JNull = False"
| "py_truthy (JBool b) = b"
| "py_truthy (JInt n) = (n \<noteq> 0)"
| "py_truthy (JFloat r) = (r \<noteq> 0)"
| "py_truthy (JStr s) = (s \<noteq> [])"
| "py_truthy (JArr xs) = (xs \<noteq> [])"
| "py_truthy (JObj kvs) = (kvs \<noteq> [])"

text \<open>\<open>x.get(k, None)\<close>: only a dict has the method.\<close>

fun py_get :: "json \<Rightarrow> string \<Rightarrow> exn + json" where
  "py_get (JObj kvs) k = Inr (case map_of kvs k of None \<Rightarrow> JNull | Some v \<Rightarrow> v)"
| "py_get _ k = Inl (AttributeError ''object has no attribute 'get' '')"

fun is_substr :: "string \<Rightarrow> string \<Rightarrow> bool" where
  "is_substr k [] = (k = [])"
| "is_substr k (c # cs) = (prefix k (c # cs) \<or> is_substr k cs)"

text \<open>
  \<open>k in x\<close> for a str \<open>k\<close>: key membership in a dict, element membership in a list,
  substring test in a str, and a TypeError for everything that is not a container.
\<close>

fun py_contains :: "json \<Rightarrow> string \<Rightarrow> exn + bool" where
  "py_contains (JObj kvs) k = Inr (map_of kvs k \<noteq> None)"
| "py_contains (JArr xs) k = Inr (JStr k \<in> set xs)"
| "py_contains (JStr s) k = Inr (is_substr k s)"
| "py_contains _ k = Inl (TypeError ''argument is not iterable'')"

text \<open>\<open>x[k]\<close> for a str \<open>k\<close>.\<close>

fun py_getitem :: "json \<Rightarrow> string \<Rightarrow> exn + json" where
  "py_getitem (JObj kvs) k = (case map_of kvs k of None \<Rightarrow> Inl (KeyError k) | Some v \<Rightarrow> Inr v)"
| "py_getitem (JArr xs) k = Inl (TypeError ''list indices must be integers or slices, not str'')"
| "py_getitem (JStr s) k = Inl (TypeError ''string indices must be integers'')"
| "py_getitem _ k = Inl (TypeError ''object is not subscriptable'')"

fun py_len :: "json \<Rightarrow> exn + int" where
  "py_len (JObj kvs) = Inr (int (length (remdups (map fst kvs))))"
| "py_len (JArr xs) = Inr (int (length xs))"
| "py_len (JStr s) = Inr (int (length s))"
| "py_len _ = Inl (TypeError ''object has no len()'')"

text \<open>
  \<open>type('TaskSpec', (object,), task_data)\<close> builds a class whose attributes are the
  entries of the dict \<open>task_data\<close>, and raises a TypeError when \<open>task_data\<close> is not
  a dict. The class is represented by its attribute list. Keys that the class machinery
  interprets (\<open>__slots__\<close>, \<open>__qualname__\<close>) are treated like any other key.
\<close>

fun type_TaskSpec :: "json \<Rightarrow> exn + (string \<times> json) list" where
  "type_TaskSpec (JObj kvs) = Inr kvs"
| "type_TaskSpec _ = Inl (TypeError ''type() argument 3 must be dict'')"

definition getattr :: "(string \<times> json) list \<Rightarrow> string \<Rightarrow> exn + json" where
  "getattr cls a =
     (case map_of cls a of
        None \<Rightarrow> Inl (AttributeError (''type object 'TaskSpec' has no attribute '' @ a))
      | Some v \<Rightarrow> Inr v)"

subsection \<open>Decimal numerals and string formatting\<close>

fun str_nat :: "nat \<Rightarrow> string" where
  "str_nat n =
     (if n < 10 then [''0123456789'' ! n]
      else str_nat (n div 10) @ [''0123456789'' ! (n mod 10)])"

declare str_nat.simps [simp del]

definition str_int :: "int \<Rightarrow> string" where
  "str_int i = (if i < 0 then ''-'' @ str_nat (nat (- i)) else str_nat (nat i))"

text \<open>
  \<open>str(x)\<close> as the conversion \<open>%s\<close> applies it. The text Python prints for a float,
  a list or a dict is not reconstructed here: it is the parameter \<open>repr\<close>.
\<close>

fun py_str :: "(json \<Rightarrow> string) \<Rightarrow> json \<Rightarrow> string" where
  "py_str repr (JStr s) = s"
| "py_str repr (JInt n) = str_int n"
| "py_str repr (JBool b) = (if b then ''True'' else ''False'')"
| "py_str repr JNull = ''None''"
| "py_str repr v = repr v"

text \<open>The conversion \<open>%d\<close>: a number is required; a float is truncated towards zero.\<close>

fun py_format_d :: "json \<Rightarrow> exn + string" where
  "py_format_d (JInt n) = Inr (str_int n)"
| "py_format_d (JBool b) = Inr (if b then ''1'' else ''0'')"
| "py_format_d (JFloat r) = Inr (str_int (if r < 0 then \<lceil>r\<rceil> else \<lfloor>r\<rfloor>))"
| "py_format_d _ = Inl (TypeError ''%d format: a number is required'')"

subsection \<open>The file system\<close>

text \<open>
  A file system is the list of its directories and the list of its files with their
  contents. Paths are compared as they are written: no normalisation, no links, no
  permissions. \<open>path_within d p\<close> says that \<open>p\<close> is \<open>d\<close> or lies below it.
\<close>

record filesystem =
  dirs :: "string list"
  files :: "(string \<times> string) list"

definition isdir :: "filesystem \<Rightarrow> string \<Rightarrow> bool" where
  "isdir fs p = (p \<in> set (dirs fs))"

definition isfile :: "filesystem \<Rightarrow> string \<Rightarrow> bool" where
  "isfile fs p = (map_of (files fs) p \<noteq> None)"

definition path_within :: "string \<Rightarrow> string \<Rightarrow> bool" where
  "path_within d p = (p = d \<or> prefix (if d \<noteq> [] \<and> last d = CHR ''/'' then d else d @ ''/'') p)"

text \<open>\<open>os.path.join(a, b)\<close> of \<open>posixpath\<close>, for two components.\<close>

definition path_join :: "string \<Rightarrow> string \<Rightarrow> string" where
  "path_join a b =
     (if b \<noteq> [] \<and> hd b = CHR ''/'' then b
      else if a = [] \<or> last a = CHR ''/'' then a @ b
      else a @ ''/'' @ b)"

text \<open>\<open>shutil.rmtree(p)\<close>: \<open>p\<close> must be a directory; it goes with all that is below it.\<close>

definition rmtree :: "filesystem \<Rightarrow> string \<Rightarrow> exn + filesystem" where
  "rmtree fs p =
     (if isdir fs p
      then Inr (fs\<lparr>dirs := filter (\<lambda>q. \<not> path_within p q) (dirs fs),
                   files := filter (\<lambda>(q, c). \<not> path_within p q) (files fs)\<rparr>)
      else Inl (NotADirectoryError p))"

text \<open>
  The proper ancestors of a path: its non-empty proper prefixes that end just before
  a separator.
\<close>

definition ancestors :: "string \<Rightarrow> string list" where
  "ancestors p =
     filter (\<lambda>q. q \<noteq> [] \<and> q \<noteq> p \<and> hd (drop (length q) p) = CHR ''/'') (prefixes p)"

text \<open>
  \<open>tf.gfile.MakeDirs(p)\<close>: creates \<open>p\<close> and the missing ancestors, succeeds when
  \<open>p\<close> is a directory already, fails when \<open>p\<close> or an ancestor is a file.
\<close>

definition MakeDirs :: "filesystem \<Rightarrow> string \<Rightarrow> exn + filesystem" where
  "MakeDirs fs p =
     (if \<exists>q \<in> set (ancestors p @ [p]). isfile fs q
      then Inl (FailedPreconditionError p)
      else Inr (fs\<lparr>dirs := dirs fs @ filter (\<lambda>q. \<not> isdir fs q) (ancestors p @ [p])\<rparr>))"

text \<open>
  \<open>tf.gfile.Copy(src, dst, overwrite)\<close>: the source must be a file, the target must
  not be a directory, and an existing target is replaced only with \<open>overwrite\<close>.
\<close>

definition Copy :: "filesystem \<Rightarrow> string \<Rightarrow> string \<Rightarrow> bool \<Rightarrow> exn + filesystem" where
  "Copy fs src dst overwrite =
     (case map_of (files fs) src of
        None \<Rightarrow> Inl (NotFoundError src)
      | Some c \<Rightarrow>
          if isdir fs dst then Inl (FailedPreconditionError dst)
          else if isfile fs dst \<and> \<not> overwrite then Inl (AlreadyExistsError dst)
          else Inr (fs\<lparr>files := (dst, c) # filter (\<lambda>(q, c'). q \<noteq> dst) (files fs)\<rparr>))"

subsection \<open>Flags, configuration and the collaborators\<close>

text \<open>The flags that \<open>main\<close> reads from \<open>FLAGS\<close>, with the types they are declared with.\<close>

record flags =
  FLAGS_master :: string
  FLAGS_task :: int
  FLAGS_num_clones :: int
  FLAGS_n_steps :: int
  FLAGS_allow_memory_growth :: bool
  FLAGS_max_ckpt_to_keep :: int
  FLAGS_save_interval_secs :: int
  FLAGS_clone_on_cpu :: bool
  FLAGS_worker_replicas :: int
  FLAGS_ps_tasks :: int
  FLAGS_train_dir :: string
  FLAGS_reset_train :: int
  FLAGS_enable_mixed_precision :: int
  FLAGS_n_cpu_threads :: int
  FLAGS_pipeline_config_path :: string
  FLAGS_train_config_path :: string
  FLAGS_input_config_path :: string
  FLAGS_model_config_path :: string

text \<open>
  Modelled from the spec: the protobuf messages and the dict that the loaders of
  \<open>object_detection.utils.config_util\<close> return are not part of the source at hand.
  By the spec the configuration bundle is a mapping containing at least \<open>model\<close>,
  \<open>train_config\<close> and \<open>train_input_config\<close>, and optionally
  \<open>graph_rewriter_config\<close>; of the training configuration \<open>main\<close> touches the step
  count only, an integer. A message is otherwise an opaque text.
\<close>

type_synonym proto = string

record train_config =
  num_steps :: int
  other_fields :: proto

record configs =
  cfg_model :: proto
  cfg_train_config :: train_config
  cfg_train_input_config :: proto
  cfg_graph_rewriter_config :: "proto option"

text \<open>The objects of TensorFlow that \<open>main\<close> only passes on are opaque handles.\<close>

datatype cluster_spec = ClusterSpec_object json

datatype cluster_arg = From_data json | From_spec cluster_spec | From_None

record server =
  target :: string

datatype join_result = Join_blocks | Join_returns | Join_raises exn

datatype graph_rewriter_fn = Graph_rewriter_fn string

text \<open>
  The arguments of \<open>trainer.train\<close>, in the order of the call. The two partial
  applications are represented by the configuration each of them binds.
\<close>

record train_args =
  arg_create_input_dict_fn :: proto
  arg_model_fn :: proto
  arg_train_config :: train_config
  arg_master :: string
  arg_task :: json
  arg_num_clones :: int
  arg_worker_replicas :: int
  arg_clone_on_cpu :: bool
  arg_ps_tasks :: int
  arg_worker_job_name :: string
  arg_is_chief :: bool
  arg_train_dir :: string
  arg_graph_hook_fn :: "graph_rewriter_fn option"
  arg_allow_memory_growth :: bool
  arg_n_cpu_threads :: int
  arg_max_ckpt_to_keep :: int
  arg_save_interval_secs :: int
  arg_enable_mixed_precision :: int

text \<open>
  The collaborators: what each call out of the file returns or raises. The loaders read
  the file system. \<open>join\<close> may block for ever. \<open>getpid\<close> is the process id and
  \<open>repr\<close> the text of a compound value.
\<close>

record externals =
  get_configs_from_pipeline_file :: "filesystem \<Rightarrow> string \<Rightarrow> exn + configs"
  get_configs_from_multiple_files ::
    "filesystem \<Rightarrow> string \<Rightarrow> string \<Rightarrow> string \<Rightarrow> exn + configs"
  ClusterSpec :: "cluster_arg \<Rightarrow> exn + cluster_spec"
  Server :: "cluster_spec \<Rightarrow> string \<Rightarrow> json \<Rightarrow> json \<Rightarrow> exn + server"
  join :: "server \<Rightarrow> join_result"
  graph_rewriter_build :: "proto \<Rightarrow> bool \<Rightarrow> exn + graph_rewriter_fn"
  train :: "train_args \<Rightarrow> exn + unit"
  getpid :: int
  repr :: "json \<Rightarrow> string"

text \<open>
  The environment variable \<open>TF_CONFIG\<close>: not set, set to a text that \<open>json.loads\<close>
  rejects, or set to a text that it parses to a value.
\<close>

datatype tf_config = Unset | Invalid | Parsed json

subsection \<open>Programs: state, trace and the ways to stop\<close>

text \<open>
  Every call that leaves the file is recorded with its arguments. The file system in the
  state follows the calls that \<open>main\<close> itself makes; what the trainer writes is not part
  of it.
\<close>

datatype event =
    Print string
  | Call_rmtree string
  | Call_MakeDirs string
  | Call_Copy string string bool
  | Call_get_configs_from_pipeline_file string
  | Call_get_configs_from_multiple_files string string string
  | Call_ClusterSpec cluster_arg
  | Call_Server cluster_spec string json json
  | Call_join server
  | Call_graph_rewriter_build proto bool
  | Call_train train_args

record world =
  fs :: filesystem
  trace :: "event list"

text \<open>
  A program stops early by raising, by blocking for ever, or by the \<open>return\<close> in the
  middle of \<open>main\<close>.
\<close>

datatype stop = Raise exn | Block | Return

type_synonym 'a prog = "world \<Rightarrow> (stop + 'a) \<times> world"

definition ret :: "'a \<Rightarrow> 'a prog" where
  "ret x = (\<lambda>w. (Inr x, w))"

definition seq :: "'a prog \<Rightarrow> ('a \<Rightarrow> 'b prog) \<Rightarrow> 'b prog" where
  "seq m f = (\<lambda>w. case m w of (Inl s, w') \<Rightarrow> (Inl s, w') | (Inr x, w') \<Rightarrow> f x w')"

definition stop_with :: "stop \<Rightarrow> 'a prog" where
  "stop_with s = (\<lambda>w. (Inl s, w))"

definition lift :: "exn + 'a \<Rightarrow> 'a prog" where
  "lift r = (case r of Inl e \<Rightarrow> stop_with (Raise e) | Inr x \<Rightarrow> ret x)"

definition emit :: "event \<Rightarrow> unit prog" where
  "emit ev = (\<lambda>w. (Inr (), w\<lparr>trace := trace w @ [ev]\<rparr>))"

definition print :: "string \<Rightarrow> unit prog" where
  "print s = emit (Print s)"

text \<open>A call into the file system: recorded, then carried out on the state.\<close>

definition fs_call :: "event \<Rightarrow> (filesystem \<Rightarrow> exn + filesystem) \<Rightarrow> unit prog" where
  "fs_call ev op =
     seq (emit ev) (\<lambda>_ w. case op (fs w) of
                             Inl e \<Rightarrow> (Inl (Raise e), w)
                           | Inr fs' \<Rightarrow> (Inr (), w\<lparr>fs := fs'\<rparr>))"

text \<open>A call to a collaborator: recorded, then its result taken.\<close>

definition ext_call :: "event \<Rightarrow> exn + 'a \<Rightarrow> 'a prog" where
  "ext_call ev r = seq (emit ev) (\<lambda>_. lift r)"

text \<open>A call to a collaborator that reads the file system.\<close>

definition read_call :: "event \<Rightarrow> (filesystem \<Rightarrow> exn + 'a) \<Rightarrow> 'a prog" where
  "read_call ev f = seq (emit ev) (\<lambda>_ w. lift (f (fs w)) w)"

text \<open>\<open>os.path.isdir(p)\<close> looks at the file system and changes nothing.\<close>

definition os_path_isdir :: "string \<Rightarrow> bool prog" where
  "os_path_isdir p = (\<lambda>w. (Inr (isdir (fs w) p), w))"

text \<open>\<open>try: m except C as e: h e\<close>.\<close>

definition try_except :: "'a prog \<Rightarrow> string \<Rightarrow> (exn \<Rightarrow> 'a prog) \<Rightarrow> 'a prog" where
  "try_except m c h =
     (\<lambda>w. case m w of
            (Inl (Raise e), w') \<Rightarrow> if isinstance e c then h e w' else (Inl (Raise e), w')
          | r \<Rightarrow> r)"

subsection \<open>\<open>main\<close>, lines 121 to 127: the training directory\<close>

definition assert_train_dir :: "flags \<Rightarrow> unit prog" where
  "assert_train_dir F =
     (if FLAGS_train_dir F \<noteq> [] then ret ()
      else stop_with (Raise (AssertionError ''`train_dir` is missing.'')))"

text \<open>
  \<^verbatim>\<open>if FLAGS.reset_train and os.path.isdir(FLAGS.train_dir):\<close>
  \<^verbatim>\<open>    print(...); shutil.rmtree(FLAGS.train_dir)\<close>
\<close>

definition reset_train :: "flags \<Rightarrow> unit prog" where
  "reset_train F =
     (if FLAGS_reset_train F \<noteq> 0
      then seq (os_path_isdir (FLAGS_train_dir F)) (\<lambda>exists.
           if exists
           then seq (print (''Removing weights folder: '' @ FLAGS_train_dir F))
                  (\<lambda>_. fs_call (Call_rmtree (FLAGS_train_dir F))
                          (\<lambda>fs. rmtree fs (FLAGS_train_dir F)))
           else ret ())
      else ret ())"

text \<open>\<^verbatim>\<open>if FLAGS.task == 0: tf.gfile.MakeDirs(FLAGS.train_dir)\<close>\<close>

definition make_train_dir :: "flags \<Rightarrow> unit prog" where
  "make_train_dir F =
     (if FLAGS_task F = 0
      then fs_call (Call_MakeDirs (FLAGS_train_dir F)) (\<lambda>fs. MakeDirs fs (FLAGS_train_dir F))
      else ret ())"

subsection \<open>\<open>main\<close>, lines 128 to 154: the configuration\<close>

definition gfile_Copy :: "string \<Rightarrow> string \<Rightarrow> bool \<Rightarrow> unit prog" where
  "gfile_Copy src dst overwrite =
     fs_call (Call_Copy src dst overwrite) (\<lambda>fs. Copy fs src dst overwrite)"

text \<open>The loop over the three pairs of a target name and a source path.\<close>

fun copy_each :: "string \<Rightarrow> (string \<times> string) list \<Rightarrow> unit prog" where
  "copy_each dir [] = ret ()"
| "copy_each dir ((name, config) # rest) =
     seq (gfile_Copy config (path_join dir name) True) (\<lambda>_. copy_each dir rest)"

definition load_configs :: "externals \<Rightarrow> flags \<Rightarrow> configs prog" where
  "load_configs X F =
     (if FLAGS_pipeline_config_path F \<noteq> []
      then
        seq (read_call (Call_get_configs_from_pipeline_file (FLAGS_pipeline_config_path F))
               (\<lambda>fs. get_configs_from_pipeline_file X fs (FLAGS_pipeline_config_path F)))
          (\<lambda>configs.
        seq (if FLAGS_task F = 0
             then gfile_Copy (FLAGS_pipeline_config_path F)
                    (path_join (FLAGS_train_dir F) ''pipeline.config'') True
             else ret ())
          (\<lambda>_. ret configs))
      else
        seq (read_call (Call_get_configs_from_multiple_files (FLAGS_model_config_path F)
                 (FLAGS_train_config_path F) (FLAGS_input_config_path F))
               (\<lambda>fs. get_configs_from_multiple_files X fs (FLAGS_model_config_path F)
                        (FLAGS_train_config_path F) (FLAGS_input_config_path F)))
          (\<lambda>configs.
        seq (if FLAGS_task F = 0
             then copy_each (FLAGS_train_dir F)
                    [(''model.config'', FLAGS_model_config_path F),
                     (''train.config'', FLAGS_train_config_path F),
                     (''input.config'', FLAGS_input_config_path F)]
             else ret ())
          (\<lambda>_. ret configs)))"

text \<open>
  \<^verbatim>\<open>train_config = configs['train_config']\<close>
  \<^verbatim>\<open>if FLAGS.n_steps > 0: train_config.num_steps = FLAGS.n_steps; print(...)\<close>
  The assignment goes through the reference into the bundle.
\<close>

definition override_n_steps :: "flags \<Rightarrow> configs \<Rightarrow> configs prog" where
  "override_n_steps F configs =
     (if FLAGS_n_steps F > 0
      then seq (print (''Training for '' @ str_int (FLAGS_n_steps F) @ '' steps''))
             (\<lambda>_. ret (configs\<lparr>cfg_train_config :=
                                 (cfg_train_config configs)\<lparr>num_steps := FLAGS_n_steps F\<rparr>\<rparr>))
      else ret configs)"

definition config_resolver :: "externals \<Rightarrow> flags \<Rightarrow> configs prog" where
  "config_resolver X F = seq (load_configs X F) (override_n_steps F)"

subsection \<open>\<open>main\<close>, lines 167 to 202: the role in the cluster\<close>

text \<open>The local variables that describe the role, with the names they have in \<open>main\<close>.\<close>

record role =
  ps_tasks :: int
  worker_replicas :: int
  worker_job_name :: string
  task :: json
  is_chief :: bool
  master :: string

text \<open>\<^verbatim>\<open>env = json.loads(os.environ.get('TF_CONFIG', '{}'))\<close>\<close>

fun load_env :: "tf_config \<Rightarrow> exn + json" where
  "load_env Unset = Inr (JObj [])"
| "load_env Invalid = Inl (JSONDecodeError ''Expecting value'')"
| "load_env (Parsed v) = Inr v"

text \<open>
  \<^verbatim>\<open>worker_replicas = 1\<close>
  \<^verbatim>\<open>if cluster_data and 'worker' in cluster_data:\<close>
  \<^verbatim>\<open>    worker_replicas = len(cluster_data['worker']) + 1\<close>
\<close>

definition get_worker_replicas :: "json \<Rightarrow> exn + int" where
  "get_worker_replicas cluster_data =
     (if py_truthy cluster_data
      then (case py_contains cluster_data ''worker'' of
              Inl e \<Rightarrow> Inl e
            | Inr False \<Rightarrow> Inr 1
            | Inr True \<Rightarrow>
                (case py_getitem cluster_data ''worker'' of
                   Inl e \<Rightarrow> Inl e
                 | Inr ws \<Rightarrow> (case py_len ws of Inl e \<Rightarrow> Inl e | Inr n \<Rightarrow> Inr (n + 1))))
      else Inr 1)"

text \<open>
  \<^verbatim>\<open>ps_tasks = 0\<close>
  \<^verbatim>\<open>if cluster_data and 'ps' in cluster_data:\<close>
  \<^verbatim>\<open>    ps_tasks = len(cluster_data['ps'])\<close>
\<close>

definition get_ps_tasks :: "json \<Rightarrow> exn + int" where
  "get_ps_tasks cluster_data =
     (if py_truthy cluster_data
      then (case py_contains cluster_data ''ps'' of
              Inl e \<Rightarrow> Inl e
            | Inr False \<Rightarrow> Inr 0
            | Inr True \<Rightarrow>
                (case py_getitem cluster_data ''ps'' of
                   Inl e \<Rightarrow> Inl e
                 | Inr ps \<Rightarrow> py_len ps))
      else Inr 0)"

text \<open>The parameters for a single worker, lines 174 to 179.\<close>

definition single_worker :: role where
  "single_worker =
     \<lparr>ps_tasks = 0, worker_replicas = 1, worker_job_name = ''lonely_worker'',
      task = JInt 0, is_chief = True, master = []\<rparr>"

text \<open>
  Lines 192 to 202. The arguments of the \<open>Server\<close> call are evaluated from left to
  right; a task of type \<open>ps\<close> joins the server and, should the join return, leaves
  \<open>main\<close>.
\<close>

definition distributed_setup ::
  "externals \<Rightarrow> cluster_spec option \<Rightarrow> (string \<times> json) list \<Rightarrow> role \<Rightarrow> role prog" where
  "distributed_setup X cluster task_info r =
     seq (let a = (case cluster of None \<Rightarrow> From_None | Some c \<Rightarrow> From_spec c)
          in ext_call (Call_ClusterSpec a) (ClusterSpec X a))
       (\<lambda>spec.
     seq (lift (getattr task_info ''type'')) (\<lambda>job_name.
     seq (lift (getattr task_info ''index'')) (\<lambda>task_index.
     seq (ext_call (Call_Server spec ''grpc'' job_name task_index)
            (Server X spec ''grpc'' job_name task_index))
       (\<lambda>server.
     if job_name = JStr ''ps''
     then seq (emit (Call_join server))
            (\<lambda>_. case join X server of
                    Join_blocks \<Rightarrow> stop_with Block
                  | Join_raises e \<Rightarrow> stop_with (Raise e)
                  | Join_returns \<Rightarrow> stop_with Return)
     else
       seq (lift (py_format_d task_index)) (\<lambda>d.
       ret (r\<lparr>worker_job_name := py_str (repr X) job_name @ ''/task:'' @ d,
              task := task_index,
              is_chief := (job_name = JStr ''master''),
              master := target server\<rparr>))))))"

text \<open>
  \<^verbatim>\<open>cluster = tf.train.ClusterSpec(cluster_data) if cluster_data else None\<close>
\<close>

definition make_cluster :: "externals \<Rightarrow> json \<Rightarrow> cluster_spec option prog" where
  "make_cluster X cluster_data =
     (if py_truthy cluster_data
      then seq (ext_call (Call_ClusterSpec (From_data cluster_data))
                  (ClusterSpec X (From_data cluster_data)))
             (\<lambda>c. ret (Some c))
      else ret None)"

text \<open>
  \<^verbatim>\<open>task_data = env.get('task', None) or {'type': 'master', 'index': 0}\<close>
  \<^verbatim>\<open>task_info = type('TaskSpec', (object,), task_data)\<close>
\<close>

definition make_task_info :: "json \<Rightarrow> exn + (string \<times> json) list" where
  "make_task_info env =
     (case py_get env ''task'' of
        Inl e \<Rightarrow> Inl e
      | Inr t \<Rightarrow>
          type_TaskSpec
            (if py_truthy t then t
             else JObj [(''type'', JStr ''master''), (''index'', JInt 0)]))"

text \<open>Lines 187 to 202: the check of the counts and the choice between the two modes.\<close>

definition choose_mode ::
  "externals \<Rightarrow> cluster_spec option \<Rightarrow> (string \<times> json) list \<Rightarrow> int \<Rightarrow> int \<Rightarrow> role prog" where
  "choose_mode X cluster task_info n_workers n_ps =
     (if n_workers > 1 \<and> n_ps < 1
      then stop_with
             (Raise (ValueError ''At least 1 ps task is needed for distributed training.''))
      else if n_workers \<ge> 1 \<and> n_ps > 0
      then distributed_setup X cluster task_info
             (single_worker\<lparr>worker_replicas := n_workers, ps_tasks := n_ps\<rparr>)
      else ret (single_worker\<lparr>worker_replicas := n_workers, ps_tasks := n_ps\<rparr>))"

definition role_resolver :: "externals \<Rightarrow> tf_config \<Rightarrow> role prog" where
  "role_resolver X tfc =
     seq (lift (load_env tfc)) (\<lambda>env.
     seq (lift (py_get env ''cluster'')) (\<lambda>cluster_data.
     seq (make_cluster X cluster_data) (\<lambda>cluster.
     seq (lift (make_task_info env)) (\<lambda>task_info.
     seq (lift (get_worker_replicas cluster_data)) (\<lambda>n_workers.
     seq (lift (get_ps_tasks cluster_data)) (\<lambda>n_ps.
     choose_mode X cluster task_info n_workers n_ps))))))"

subsection \<open>\<open>main\<close>, lines 204 to 237: the call of the trainer\<close>

definition build_graph_rewriter :: "externals \<Rightarrow> configs \<Rightarrow> graph_rewriter_fn option prog" where
  "build_graph_rewriter X configs =
     (case cfg_graph_rewriter_config configs of
        None \<Rightarrow> ret None
      | Some c \<Rightarrow>
          seq (ext_call (Call_graph_rewriter_build c True) (graph_rewriter_build X c True))
            (\<lambda>h. ret (Some h)))"

definition make_train_args ::
  "flags \<Rightarrow> configs \<Rightarrow> role \<Rightarrow> graph_rewriter_fn option \<Rightarrow> train_args" where
  "make_train_args F configs r hook =
     \<lparr>arg_create_input_dict_fn = cfg_train_input_config configs,
      arg_model_fn = cfg_model configs,
      arg_train_config = cfg_train_config configs,
      arg_master = master r,
      arg_task = task r,
      arg_num_clones = FLAGS_num_clones F,
      arg_worker_replicas = worker_replicas r,
      arg_clone_on_cpu = FLAGS_clone_on_cpu F,
      arg_ps_tasks = ps_tasks r,
      arg_worker_job_name = worker_job_name r,
      arg_is_chief = is_chief r,
      arg_train_dir = FLAGS_train_dir F,
      arg_graph_hook_fn = hook,
      arg_allow_memory_growth = FLAGS_allow_memory_growth F,
      arg_n_cpu_threads = FLAGS_n_cpu_threads F,
      arg_max_ckpt_to_keep = FLAGS_max_ckpt_to_keep F,
      arg_save_interval_secs = FLAGS_save_interval_secs F,
      arg_enable_mixed_precision = FLAGS_enable_mixed_precision F\<rparr>"

text \<open>The \<open>try\<close> statement of lines 213 to 237.\<close>

definition delegate :: "externals \<Rightarrow> train_args \<Rightarrow> unit prog" where
  "delegate X a =
     try_except (ext_call (Call_train a) (train X a)) ''RuntimeError''
       (\<lambda>e. print (''Ignoring annoying RuntimeError: '' @ exn_msg e))"

subsection \<open>\<open>main\<close>\<close>

text \<open>Lines 121 to 165: the training directory and the configuration bundle.\<close>

definition configure :: "externals \<Rightarrow> flags \<Rightarrow> configs prog" where
  "configure X F =
     seq (assert_train_dir F) (\<lambda>_.
     seq (reset_train F) (\<lambda>_.
     seq (make_train_dir F) (\<lambda>_.
     config_resolver X F)))"

text \<open>Everything up to the \<open>try\<close> statement: it yields the arguments of the trainer.\<close>

definition prepare :: "externals \<Rightarrow> flags \<Rightarrow> tf_config \<Rightarrow> train_args prog" where
  "prepare X F tfc =
     seq (configure X F) (\<lambda>configs.
     seq (role_resolver X tfc) (\<lambda>r.
     seq (build_graph_rewriter X configs) (\<lambda>hook.
     seq (print (''pid: '' @ str_int (getpid X))) (\<lambda>_.
     ret (make_train_args F configs r hook)))))"

text \<open>
  \<open>main\<close> starts with an empty trace on the given file system. Leaving through the
  \<open>return\<close> of line 197 is a normal end.
\<close>

definition main :: "externals \<Rightarrow> flags \<Rightarrow> tf_config \<Rightarrow> filesystem \<Rightarrow> (stop + unit) \<times> world" where
  "main X F tfc fs0 =
     (case seq (prepare X F tfc) (delegate X) \<lparr>fs = fs0, trace = []\<rparr> of
        (Inl Return, w) \<Rightarrow> (Inr (), w)
      | r \<Rightarrow> r)"

subsection \<open>Kinds of events\<close>

text \<open>
  \<open>emits_only P m\<close>: the program \<open>m\<close> only ever appends to the trace, and only events
  of the kind \<open>P\<close>.
\<close>

definition emits_only :: "(event \<Rightarrow> bool) \<Rightarrow> 'a prog \<Rightarrow> bool" where
  "emits_only P m = (\<forall>w. \<exists>evs. trace (snd (m w)) = trace w @ evs \<and> list_all P evs)"

text \<open>\<open>keeps_fs m\<close>: the program \<open>m\<close> leaves the file system as it finds it.\<close>

definition keeps_fs :: "'a prog \<Rightarrow> bool" where
  "keeps_fs m = (\<forall>w. fs (snd (m w)) = fs w)"

fun is_Call_train :: "event \<Rightarrow> bool" where
  "is_Call_train (Call_train a) = True"
| "is_Call_train _ = False"

fun creates_or_copies :: "event \<Rightarrow> bool" where
  "creates_or_copies (Call_MakeDirs d) = True"
| "creates_or_copies (Call_Copy s d b) = True"
| "creates_or_copies _ = False"

fun loads_separate_files :: "event \<Rightarrow> bool" where
  "loads_separate_files (Call_get_configs_from_multiple_files m t i) = True"
| "loads_separate_files _ = False"

subsection \<open>A concrete run\<close>

text \<open>
  Collaborators, flags and a file system on which \<open>main\<close> runs from its first line to
  its last; the flags have their declared defaults where they are not needed otherwise.
\<close>

definition example_configs :: configs where
  "example_configs =
     \<lparr>cfg_model = ''ssd'',
      cfg_train_config = \<lparr>num_steps = 200000, other_fields = ''batch_size: 24''\<rparr>,
      cfg_train_input_config = ''tf_record_input_reader'',
      cfg_graph_rewriter_config = None\<rparr>"

definition example_externals :: externals where
  "example_externals =
     \<lparr>get_configs_from_pipeline_file =
        (\<lambda>fs p. if isfile fs p then Inr example_configs else Inl (NotFoundError p)),
      get_configs_from_multiple_files =
        (\<lambda>fs m t i. if isfile fs m \<and> isfile fs t \<and> isfile fs i then Inr example_configs
                     else Inl (NotFoundError m)),
      ClusterSpec =
        (\<lambda>a. case a of
                From_data v \<Rightarrow> Inr (ClusterSpec_object v)
              | From_spec c \<Rightarrow> Inr c
              | From_None \<Rightarrow> Inl (TypeError ''cluster must be a dictionary'')),
      Server = (\<lambda>c p j i. Inr \<lparr>target = ''grpc://localhost:2222''\<rparr>),
      join = (\<lambda>s. Join_blocks),
      graph_rewriter_build = (\<lambda>c b. Inr (Graph_rewriter_fn c)),
      train = (\<lambda>a. Inr ()),
      getpid = 4242,
      repr = (\<lambda>v. ''?'')\<rparr>"

definition example_flags :: flags where
  "example_flags =
     \<lparr>FLAGS_master = [],
      FLAGS_task = 0,
      FLAGS_num_clones = 1,
      FLAGS_n_steps = 500,
      FLAGS_allow_memory_growth = True,
      FLAGS_max_ckpt_to_keep = 1,
      FLAGS_save_interval_secs = 600,
      FLAGS_clone_on_cpu = False,
      FLAGS_worker_replicas = 1,
      FLAGS_ps_tasks = 0,
      FLAGS_train_dir = ''out'',
      FLAGS_reset_train = 1,
      FLAGS_enable_mixed_precision = 0,
      FLAGS_n_cpu_threads = 4,
      FLAGS_pipeline_config_path = ''p.config'',
      FLAGS_train_config_path = [],
      FLAGS_input_config_path = [],
      FLAGS_model_config_path = []\<rparr>"

definition example_fs :: filesystem where
  "example_fs = \<lparr>dirs = [''out''], files = [(''p.config'', ''model''), (''out/ckpt'', ''w'')]\<rparr>"

definition example_cluster :: "(string \<times> json) list" where
  "example_cluster =
     [(''master'', JArr [JStr ''h0:2222'']),
      (''worker'', JArr [JStr ''h1:2222'', JStr ''h2:2222'']),
      (''ps'', JArr [JStr ''h3:2222''])]"

section \<open>Properties\<close>

subsection \<open>Running the primitives\<close>

lemma ret_apply: "ret x w = (Inr x, w)"
  by (simp add: ret_def)

lemma stop_with_apply: "stop_with s w = (Inl s, w)"
  by (simp add: stop_with_def)

lemma emit_apply: "emit ev w = (Inr (), w\<lparr>trace := trace w @ [ev]\<rparr>)"
  by (simp add: emit_def)

lemma print_apply: "print s w = (Inr (), w\<lparr>trace := trace w @ [Print s]\<rparr>)"
  by (simp add: print_def emit_def)

lemma os_path_isdir_apply: "os_path_isdir p w = (Inr (isdir (fs w) p), w)"
  by (simp add: os_path_isdir_def)

lemma lift_Inr [simp]: "lift (Inr x) = ret x"
  by (simp add: lift_def)

lemma lift_Inl [simp]: "lift (Inl e) = stop_with (Raise e)"
  by (simp add: lift_def)

lemma seq_apply: "seq m f w = (case m w of (Inl s, w') \<Rightarrow> (Inl s, w') | (Inr x, w') \<Rightarrow> f x w')"
  by (simp add: seq_def)

lemma seq_Inr: "m w = (Inr x, w') \<Longrightarrow> seq m f w = f x w'"
  by (simp add: seq_def)

lemma seq_Inl: "m w = (Inl s, w') \<Longrightarrow> seq m f w = (Inl s, w')"
  by (simp add: seq_def)

lemma seq_ret [simp]: "seq (ret x) f = f x"
  by (rule ext) (simp add: seq_def ret_def)

lemma seq_stop_with [simp]: "seq (stop_with s) f = stop_with s"
  by (rule ext) (simp add: seq_def stop_with_def)

lemma ext_call_apply:
  "ext_call ev r w =
     (case r of Inl e \<Rightarrow> (Inl (Raise e), w\<lparr>trace := trace w @ [ev]\<rparr>)
              | Inr x \<Rightarrow> (Inr x, w\<lparr>trace := trace w @ [ev]\<rparr>))"
  by (simp add: ext_call_def seq_def emit_def ret_def stop_with_def split: sum.splits)

lemma read_call_apply:
  "read_call ev f w =
     (case f (fs w) of Inl e \<Rightarrow> (Inl (Raise e), w\<lparr>trace := trace w @ [ev]\<rparr>)
                     | Inr x \<Rightarrow> (Inr x, w\<lparr>trace := trace w @ [ev]\<rparr>))"
  by (simp add: read_call_def seq_def emit_def ret_def stop_with_def split: sum.splits)

lemma fs_call_apply:
  "fs_call ev op w =
     (case op (fs w) of Inl e \<Rightarrow> (Inl (Raise e), w\<lparr>trace := trace w @ [ev]\<rparr>)
                      | Inr fs' \<Rightarrow> (Inr (), w\<lparr>trace := trace w @ [ev], fs := fs'\<rparr>))"
  by (simp add: fs_call_def seq_def emit_def split: sum.splits)

subsection \<open>What a program appends to the trace\<close>

lemma emits_only_ret: "emits_only P (ret x)"
  by (simp add: emits_only_def ret_def)

lemma emits_only_stop_with: "emits_only P (stop_with s)"
  by (simp add: emits_only_def stop_with_def)

lemma emits_only_lift: "emits_only P (lift r)"
  by (cases r) (simp_all add: emits_only_ret emits_only_stop_with)

lemma emits_only_emit: "P ev \<Longrightarrow> emits_only P (emit ev)"
  by (simp add: emits_only_def emit_def)

lemma emits_only_print: "P (Print s) \<Longrightarrow> emits_only P (print s)"
  by (simp add: print_def emits_only_emit)

lemma emits_only_os_path_isdir: "emits_only P (os_path_isdir p)"
  by (simp add: emits_only_def os_path_isdir_def)

lemma emits_only_seq:
  assumes m: "emits_only P m" and f: "\<And>x. emits_only P (f x)"
  shows "emits_only P (seq m f)"
  unfolding emits_only_def
proof
  fix w
  from m obtain evs where evs: "trace (snd (m w)) = trace w @ evs" "list_all P evs"
    unfolding emits_only_def by blast
  show "\<exists>evs. trace (snd (seq m f w)) = trace w @ evs \<and> list_all P evs"
  proof (cases "m w")
    case (Pair r w')
    show ?thesis
    proof (cases r)
      case (Inl s)
      with Pair evs show ?thesis by (auto simp: seq_def)
    next
      case (Inr x)
      from f obtain evs' where "trace (snd (f x w')) = trace w' @ evs'" "list_all P evs'"
        unfolding emits_only_def by blast
      with Inr Pair evs show ?thesis by (auto simp: seq_def)
    qed
  qed
qed

lemma emits_only_ext_call: "P ev \<Longrightarrow> emits_only P (ext_call ev r)"
  by (simp add: emits_only_def ext_call_apply split: sum.splits)

lemma emits_only_read_call: "P ev \<Longrightarrow> emits_only P (read_call ev f)"
  by (simp add: emits_only_def read_call_apply split: sum.splits)

lemma emits_only_fs_call: "P ev \<Longrightarrow> emits_only P (fs_call ev op)"
  by (simp add: emits_only_def fs_call_apply split: sum.splits)

lemma emits_only_try_except:
  assumes m: "emits_only P m" and h: "\<And>e. emits_only P (h e)"
  shows "emits_only P (try_except m c h)"
  unfolding emits_only_def
proof
  fix w
  from m obtain evs where evs: "trace (snd (m w)) = trace w @ evs" "list_all P evs"
    unfolding emits_only_def by blast
  show "\<exists>evs. trace (snd (try_except m c h w)) = trace w @ evs \<and> list_all P evs"
  proof (cases "\<exists>e. fst (m w) = Inl (Raise e) \<and> isinstance e c")
    case True
    then obtain e where e: "fst (m w) = Inl (Raise e)" "isinstance e c" by blast
    from h obtain evs' where
      "trace (snd (h e (snd (m w)))) = trace (snd (m w)) @ evs'" "list_all P evs'"
      unfolding emits_only_def by blast
    with e evs show ?thesis
      by (cases "m w") (auto simp: try_except_def)
  next
    case False
    with evs show ?thesis
      by (cases "m w") (auto simp: try_except_def split: sum.splits stop.splits)
  qed
qed

lemmas emits_only_intros =
  emits_only_ret emits_only_stop_with emits_only_lift emits_only_emit emits_only_print
  emits_only_os_path_isdir emits_only_seq emits_only_ext_call emits_only_read_call
  emits_only_fs_call emits_only_try_except

lemma emits_only_copy_each:
  "(\<And>s d b. P (Call_Copy s d b)) \<Longrightarrow> emits_only P (copy_each dir xs)"
  by (induction dir xs rule: copy_each.induct)
    (auto intro!: emits_only_intros simp: gfile_Copy_def)

lemma emits_only_trace:
  "emits_only P m \<Longrightarrow> list_all P (trace w) \<Longrightarrow> list_all P (trace (snd (m w)))"
  unfolding emits_only_def
proof -
  assume a: "\<forall>w. \<exists>evs. trace (snd (m w)) = trace w @ evs \<and> list_all P evs"
    and b: "list_all P (trace w)"
  from a obtain evs where "trace (snd (m w)) = trace w @ evs" "list_all P evs" by blast
  with b show ?thesis by simp
qed

lemma emits_only_if:
  "(c \<Longrightarrow> emits_only P m) \<Longrightarrow> (\<not> c \<Longrightarrow> emits_only P m') \<Longrightarrow>
   emits_only P (if c then m else m')"
  by simp

lemma emits_only_case_option:
  "(x = None \<Longrightarrow> emits_only P m) \<Longrightarrow> (\<And>y. x = Some y \<Longrightarrow> emits_only P (f y)) \<Longrightarrow>
   emits_only P (case x of None \<Rightarrow> m | Some y \<Rightarrow> f y)"
  by (cases x) simp_all

lemma emits_only_case_join_result:
  "emits_only P a \<Longrightarrow> emits_only P c \<Longrightarrow> (\<And>e. emits_only P (b e)) \<Longrightarrow>
   emits_only P (case x of Join_blocks \<Rightarrow> a | Join_returns \<Rightarrow> c | Join_raises e \<Rightarrow> b e)"
  by (cases x) simp_all

lemmas emits_only_structure =
  emits_only_intros emits_only_if emits_only_case_option emits_only_case_join_result
  emits_only_copy_each

lemmas main_parts =
  prepare_def configure_def assert_train_dir_def reset_train_def make_train_dir_def
  config_resolver_def load_configs_def override_n_steps_def role_resolver_def make_cluster_def
  choose_mode_def distributed_setup_def build_graph_rewriter_def delegate_def gfile_Copy_def
  Let_def

text \<open>Up to the \<open>try\<close> statement the trainer is not called.\<close>

lemma prepare_no_train: "emits_only (\<lambda>e. \<not> is_Call_train e) (prepare X F tfc)"
  unfolding main_parts
  by (intro emits_only_structure; simp)

subsection \<open>Evaluating a concrete run\<close>

lemmas run_defs =
  main_def main_parts seq_apply ret_apply stop_with_apply emit_apply print_apply
  os_path_isdir_apply ext_call_apply read_call_apply fs_call_apply try_except_def
  make_train_args_def single_worker_def get_worker_replicas_def get_ps_tasks_def getattr_def
  make_task_info_def
  isdir_def isfile_def rmtree_def MakeDirs_def Copy_def path_join_def path_within_def
  ancestors_def isinstance_def str_int_def str_nat.simps
  example_externals_def example_flags_def example_fs_def example_configs_def example_cluster_def
  ValueError_def RuntimeError_def TypeError_def NotFoundError_def KeyError_def
  NotADirectoryError_def

subsection \<open>The role of a process without a cluster\<close>

text \<open>
  C3. When \<open>TF_CONFIG\<close> is not set, or is set to \<open>{}\<close>, the role resolution ends
  with the parameters of a single worker: no parameter server, one worker replica, the
  job name \<open>lonely_worker\<close>, task 0, chief, and the empty master address. It calls no
  collaborator and leaves the state as it is.
\<close>

theorem role_resolver_single_worker:
  "role_resolver X Unset w =
     (Inr \<lparr>ps_tasks = 0, worker_replicas = 1, worker_job_name = ''lonely_worker'',
           task = JInt 0, is_chief = True, master = ''''\<rparr>, w)
   \<and> role_resolver X (Parsed (JObj [])) w =
     (Inr \<lparr>ps_tasks = 0, worker_replicas = 1, worker_job_name = ''lonely_worker'',
           task = JInt 0, is_chief = True, master = ''''\<rparr>, w)"
  by (simp add: role_resolver_def make_cluster_def make_task_info_def choose_mode_def
      get_worker_replicas_def get_ps_tasks_def single_worker_def ret_apply)

subsection \<open>Resetting the training directory\<close>

lemma rmtree_removes: "rmtree s d = Inr s' \<Longrightarrow> \<not> isdir s' d"
  by (auto simp: rmtree_def isdir_def path_within_def split: if_splits)

lemma reset_train_absent:
  "FLAGS_reset_train F \<noteq> 0 \<Longrightarrow> \<not> isdir (fs (snd (reset_train F w))) (FLAGS_train_dir F)"
proof (cases "isdir (fs w) (FLAGS_train_dir F)")
  case True
  assume r: "FLAGS_reset_train F \<noteq> 0"
  from True obtain s' where s': "rmtree (fs w) (FLAGS_train_dir F) = Inr s'"
    by (auto simp: rmtree_def)
  with True r have "fs (snd (reset_train F w)) = s'"
    by (simp add: reset_train_def seq_apply os_path_isdir_apply print_apply fs_call_apply)
  with rmtree_removes [OF s'] show ?thesis by simp
next
  case False
  assume "FLAGS_reset_train F \<noteq> 0"
  with False show ?thesis
    by (simp add: reset_train_def seq_apply os_path_isdir_apply ret_apply)
qed

lemma reset_train_returns: "fst (reset_train F w) = Inr ()"
proof (cases "FLAGS_reset_train F \<noteq> 0 \<and> isdir (fs w) (FLAGS_train_dir F)")
  case True
  then obtain s' where "rmtree (fs w) (FLAGS_train_dir F) = Inr s'"
    by (auto simp: rmtree_def)
  with True show ?thesis
    by (simp add: reset_train_def seq_apply os_path_isdir_apply print_apply fs_call_apply)
next
  case False
  then show ?thesis
    by (auto simp: reset_train_def seq_apply os_path_isdir_apply ret_apply)
qed

text \<open>
  C9. The reset of lines 123 to 125 never raises, since \<open>rmtree\<close> is called on an
  existing directory only. Running it a second time, on the state the first run left,
  ends normally and does nothing: it neither prints nor calls \<open>rmtree\<close> nor changes
  the file system. With a non-zero \<open>reset_train\<close> the directory is absent after the
  first run, so that an unguarded \<open>rmtree\<close> would raise there.
\<close>

theorem reset_train_idempotent:
  "fst (reset_train F w) = Inr ()
   \<and> reset_train F (snd (reset_train F w)) = (Inr (), snd (reset_train F w))
   \<and> (FLAGS_reset_train F \<noteq> 0 \<longrightarrow>
        \<not> isdir (fs (snd (reset_train F w))) (FLAGS_train_dir F)
        \<and> rmtree (fs (snd (reset_train F w))) (FLAGS_train_dir F)
            = Inl (NotADirectoryError (FLAGS_train_dir F)))"
proof (cases "FLAGS_reset_train F = 0")
  case True
  then show ?thesis by (simp add: reset_train_def ret_apply)
next
  case False
  then have absent: "\<not> isdir (fs (snd (reset_train F w))) (FLAGS_train_dir F)"
    by (rule reset_train_absent)
  then have "reset_train F (snd (reset_train F w)) = (Inr (), snd (reset_train F w))"
    by (subst reset_train_def) (simp add: seq_apply os_path_isdir_apply ret_apply)
  with absent reset_train_returns [of F w] show ?thesis by (simp add: rmtree_def)
qed

theorem reset_train_idempotent_witness:
  "FLAGS_reset_train example_flags \<noteq> 0
   \<and> isdir example_fs (FLAGS_train_dir example_flags)
   \<and> fst (reset_train example_flags (snd (reset_train example_flags
              \<lparr>fs = example_fs, trace = []\<rparr>))) = Inr ()
   \<and> \<not> isdir (fs (snd (reset_train example_flags \<lparr>fs = example_fs, trace = []\<rparr>)))
          (FLAGS_train_dir example_flags)"
  using reset_train_idempotent [of example_flags "\<lparr>fs = example_fs, trace = []\<rparr>"]
  by (simp add: example_flags_def example_fs_def isdir_def)

subsection \<open>Exceptions of the trainer\<close>

text \<open>
  C2. When \<open>main\<close> gets as far as the trainer and the trainer raises, then a
  \<open>RuntimeError\<close> (an exception of that class or of a subclass) is caught: its message is
  printed and \<open>main\<close> ends normally. An exception of any other class leaves \<open>main\<close>
  as it was raised.
\<close>

theorem main_trainer_raises:
  assumes "prepare X F tfc \<lparr>fs = fs0, trace = []\<rparr> = (Inr a, w)"
    and "train X a = Inl e"
  shows "main X F tfc fs0 =
     (if isinstance e ''RuntimeError''
      then (Inr (), w\<lparr>trace := trace w @
              [Call_train a, Print (''Ignoring annoying RuntimeError: '' @ exn_msg e)]\<rparr>)
      else (Inl (Raise e), w\<lparr>trace := trace w @ [Call_train a]\<rparr>))"
  using assms
  by (simp add: main_def seq_apply delegate_def try_except_def ext_call_apply print_apply)

theorem main_trainer_raises_witness:
  "fst (main (example_externals\<lparr>train := \<lambda>a. Inl (RuntimeError ''boom'')\<rparr>)
          example_flags Unset example_fs) = Inr ()
   \<and> fst (main (example_externals\<lparr>train := \<lambda>a. Inl (KeyError ''boom'')\<rparr>)
          example_flags Unset example_fs) = Inl (Raise (KeyError ''boom''))"
proof -
  let ?R = "example_externals\<lparr>train := \<lambda>a. Inl (RuntimeError ''boom'')\<rparr>"
  let ?K = "example_externals\<lparr>train := \<lambda>a. Inl (KeyError ''boom'')\<rparr>"
  let ?w = "\<lparr>fs = example_fs, trace = []\<rparr>"
  have r: "prepare ?R example_flags Unset ?w =
      (Inr (projr (fst (prepare ?R example_flags Unset ?w))),
       snd (prepare ?R example_flags Unset ?w))"
    by (simp add: run_defs)
  have k: "prepare ?K example_flags Unset ?w =
      (Inr (projr (fst (prepare ?K example_flags Unset ?w))),
       snd (prepare ?K example_flags Unset ?w))"
    by (simp add: run_defs)
  have "fst (main ?R example_flags Unset example_fs) = Inr ()"
    using main_trainer_raises [OF r, of "RuntimeError ''boom''"]
    by (simp add: isinstance_def RuntimeError_def)
  moreover have "fst (main ?K example_flags Unset example_fs) = Inl (Raise (KeyError ''boom''))"
    using main_trainer_raises [OF k, of "KeyError ''boom''"]
    by (simp add: isinstance_def KeyError_def)
  ultimately show ?thesis by simp
qed

subsection \<open>How the trainer comes to be called\<close>

lemma prepare_result:
  assumes "prepare X F tfc w = (Inr a, w')"
  shows "\<exists>configs r hook w1 w2.
           configure X F w = (Inr configs, w1) \<and> role_resolver X tfc w1 = (Inr r, w2) \<and>
           a = make_train_args F configs r hook"
proof -
  obtain r1 w1 where c: "configure X F w = (r1, w1)" by (cases "configure X F w")
  with assms obtain configs where r1: "r1 = Inr configs"
    by (cases r1) (auto simp: prepare_def seq_apply)
  obtain r2 w2 where r: "role_resolver X tfc w1 = (r2, w2)"
    by (cases "role_resolver X tfc w1")
  with assms c r1 obtain ro where r2: "r2 = Inr ro"
    by (cases r2) (auto simp: prepare_def seq_apply)
  from assms c r1 r r2 have "\<exists>hook. a = make_train_args F configs ro hook"
    by (auto simp: prepare_def seq_apply print_apply ret_apply split: sum.splits prod.splits)
  with c r1 r r2 show ?thesis by blast
qed

lemma snd_main:
  "snd (main X F tfc fs0) = snd (seq (prepare X F tfc) (delegate X) \<lparr>fs = fs0, trace = []\<rparr>)"
  by (simp add: main_def split: prod.splits sum.splits stop.splits)

lemma prepare_trace_no_train:
  "Call_train a \<notin> set (trace (snd (prepare X F tfc \<lparr>fs = fs0, trace = []\<rparr>)))"
proof -
  have "list_all (\<lambda>e. \<not> is_Call_train e)
          (trace (snd (prepare X F tfc \<lparr>fs = fs0, trace = []\<rparr>)))"
    by (rule emits_only_trace [OF prepare_no_train]) simp
  then show ?thesis by (auto simp: list_all_iff)
qed

lemma main_not_prepared:
  assumes "prepare X F tfc \<lparr>fs = fs0, trace = []\<rparr> = (Inl s, w)"
  shows "main X F tfc fs0 = (if s = Return then Inr () else Inl s, w)"
  using assms by (cases s) (simp_all add: main_def seq_apply)

lemma main_prepared:
  assumes "prepare X F tfc \<lparr>fs = fs0, trace = []\<rparr> = (Inr a, w)"
  shows "snd (main X F tfc fs0) =
     w\<lparr>trace := trace w @ Call_train a #
         (case train X a of
            Inl e \<Rightarrow> if isinstance e ''RuntimeError''
                     then [Print (''Ignoring annoying RuntimeError: '' @ exn_msg e)] else []
          | Inr u \<Rightarrow> [])\<rparr>"
  using assms
  by (simp add: snd_main seq_apply delegate_def try_except_def ext_call_apply print_apply
      split: sum.splits)

text \<open>A call of the trainer in the trace of \<open>main\<close> has the arguments that were prepared.\<close>

lemma main_train_event:
  assumes "Call_train a \<in> set (trace (snd (main X F tfc fs0)))"
  shows "\<exists>w. prepare X F tfc \<lparr>fs = fs0, trace = []\<rparr> = (Inr a, w)"
proof -
  obtain r w where p: "prepare X F tfc \<lparr>fs = fs0, trace = []\<rparr> = (r, w)"
    by (cases "prepare X F tfc \<lparr>fs = fs0, trace = []\<rparr>")
  have nt: "Call_train a \<notin> set (trace w)"
    using prepare_trace_no_train [of a X F tfc fs0] p by simp
  show ?thesis
  proof (cases r)
    case (Inl s)
    with p have "snd (main X F tfc fs0) = w"
      by (simp add: main_not_prepared)
    with assms nt show ?thesis by simp
  next
    case (Inr a')
    with p have "prepare X F tfc \<lparr>fs = fs0, trace = []\<rparr> = (Inr a', w)" by simp
    from main_prepared [OF this] assms nt have "a = a'"
      by (auto split: sum.splits if_splits)
    with p Inr show ?thesis by blast
  qed
qed

text \<open>Without a role there is no call of the trainer.\<close>

lemma main_no_role_no_train:
  assumes "\<And>w r. fst (role_resolver X tfc w) \<noteq> Inr r"
  shows "Call_train a \<notin> set (trace (snd (main X F tfc fs0)))"
proof
  assume "Call_train a \<in> set (trace (snd (main X F tfc fs0)))"
  then obtain w where "prepare X F tfc \<lparr>fs = fs0, trace = []\<rparr> = (Inr a, w)"
    using main_train_event by blast
  then obtain w1 r w2 where "role_resolver X tfc w1 = (Inr r, w2)"
    using prepare_result by blast
  with assms [of w1 r] show False by simp
qed

subsection \<open>When a sequence returns\<close>

lemma seq_returns:
  "seq m f w = (Inr y, w') \<longleftrightarrow> (\<exists>x w1. m w = (Inr x, w1) \<and> f x w1 = (Inr y, w'))"
  by (auto simp: seq_apply split: prod.splits sum.splits)

lemma lift_returns: "lift r w = (Inr x, w') \<longleftrightarrow> r = Inr x \<and> w' = w"
  by (cases r) (auto simp: ret_apply stop_with_apply)

lemma seq_lift_apply:
  "seq (lift r) f w = (case r of Inl e \<Rightarrow> (Inl (Raise e), w) | Inr x \<Rightarrow> f x w)"
  by (cases r) (simp_all add: stop_with_apply)

lemma seq_ext_call_apply:
  "seq (ext_call ev r) f w =
     (case r of Inl e \<Rightarrow> (Inl (Raise e), w\<lparr>trace := trace w @ [ev]\<rparr>)
              | Inr x \<Rightarrow> f x (w\<lparr>trace := trace w @ [ev]\<rparr>))"
  by (cases r) (simp_all add: seq_apply ext_call_apply)

lemma seq_emit_apply: "seq (emit ev) f w = f () (w\<lparr>trace := trace w @ [ev]\<rparr>)"
  by (simp add: seq_apply emit_apply)

lemmas step_apply =
  seq_lift_apply seq_ext_call_apply seq_emit_apply ret_apply stop_with_apply

subsection \<open>Counting workers and parameter servers\<close>

lemma get_worker_replicas_list:
  "map_of cl ''worker'' = Some (JArr ws) \<Longrightarrow>
   get_worker_replicas (JObj cl) = Inr (int (length ws) + 1)"
  by (auto simp: get_worker_replicas_def)

lemma get_ps_tasks_none:
  "map_of cl ''ps'' = None \<or> map_of cl ''ps'' = Some (JArr []) \<Longrightarrow>
   get_ps_tasks (JObj cl) = Inr 0"
  by (auto simp: get_ps_tasks_def)

lemma distributed_setup_keeps_counts:
  assumes "distributed_setup X c ti r w = (Inr r', w')"
  shows "worker_replicas r' = worker_replicas r \<and> ps_tasks r' = ps_tasks r"
  using assms
  by (auto simp: distributed_setup_def Let_def step_apply
      split: sum.splits if_splits join_result.splits)

lemma choose_mode_counts:
  assumes "choose_mode X c ti nw np w = (Inr r, w')"
  shows "worker_replicas r = nw \<and> ps_tasks r = np"
  using assms distributed_setup_keeps_counts [of X c ti _ w r w']
  by (auto simp: choose_mode_def step_apply split: if_splits)

text \<open>The counts in a role that the role resolution returns are the ones of lines 181 to 185.\<close>

lemma role_resolver_counts:
  assumes "role_resolver X tfc w = (Inr r, w')"
  shows "\<exists>env cd. load_env tfc = Inr env \<and> py_get env ''cluster'' = Inr cd \<and>
           get_worker_replicas cd = Inr (worker_replicas r) \<and>
           get_ps_tasks cd = Inr (ps_tasks r)"
proof -
  from assms obtain env cd c ti nw np w1 where
    "load_env tfc = Inr env" "py_get env ''cluster'' = Inr cd"
    "get_worker_replicas cd = Inr nw" "get_ps_tasks cd = Inr np"
    "choose_mode X c ti nw np w1 = (Inr r, w')"
    unfolding role_resolver_def seq_returns lift_returns by blast
  with choose_mode_counts [of X c ti nw np w1 r w'] show ?thesis by simp
qed

text \<open>
  C4. For a descriptor whose \<open>cluster\<close> entry holds a \<open>worker\<close> list of length \<open>k\<close>,
  lines 181 to 183 compute \<open>k + 1\<close> worker replicas; every role that the role resolution
  returns has this count, and so has every call of the trainer.
\<close>

theorem worker_replicas_is_workers_plus_one:
  assumes "map_of kvs ''cluster'' = Some (JObj cl)"
    and "map_of cl ''worker'' = Some (JArr ws)"
  shows "get_worker_replicas (JObj cl) = Inr (int (length ws) + 1)
    \<and> (\<forall>X w r w'. role_resolver X (Parsed (JObj kvs)) w = (Inr r, w') \<longrightarrow>
          worker_replicas r = int (length ws) + 1)
    \<and> (\<forall>X F fs0 a. Call_train a \<in> set (trace (snd (main X F (Parsed (JObj kvs)) fs0))) \<longrightarrow>
          arg_worker_replicas a = int (length ws) + 1)"
proof -
  have n: "get_worker_replicas (JObj cl) = Inr (int (length ws) + 1)"
    using assms(2) by (rule get_worker_replicas_list)
  have role: "worker_replicas r = int (length ws) + 1"
    if "role_resolver X (Parsed (JObj kvs)) w = (Inr r, w')" for X w r w'
    using role_resolver_counts [OF that] assms(1) n by auto
  have "arg_worker_replicas a = int (length ws) + 1"
    if "Call_train a \<in> set (trace (snd (main X F (Parsed (JObj kvs)) fs0)))" for X F fs0 a
  proof -
    from main_train_event [OF that] obtain w where
      "prepare X F (Parsed (JObj kvs)) \<lparr>fs = fs0, trace = []\<rparr> = (Inr a, w)" by blast
    from prepare_result [OF this] obtain configs r hook w1 w2 where
      "role_resolver X (Parsed (JObj kvs)) w1 = (Inr r, w2)"
      "a = make_train_args F configs r hook" by blast
    with role show ?thesis by (simp add: make_train_args_def)
  qed
  with n role show ?thesis by blast
qed

theorem worker_replicas_is_workers_plus_one_witness:
  "arg_worker_replicas
     (projr (fst (prepare example_externals example_flags
        (Parsed (JObj [(''cluster'', JObj example_cluster)])) \<lparr>fs = example_fs, trace = []\<rparr>)))
   = 3"
proof -
  let ?tfc = "Parsed (JObj [(''cluster'', JObj example_cluster)])"
  let ?a = "projr (fst (prepare example_externals example_flags ?tfc
                          \<lparr>fs = example_fs, trace = []\<rparr>))"
  have c: "map_of [(''cluster'', JObj example_cluster)] ''cluster'' = Some (JObj example_cluster)"
    by simp
  have w: "map_of example_cluster ''worker'' = Some (JArr [JStr ''h1:2222'', JStr ''h2:2222''])"
    by (simp add: example_cluster_def)
  have t: "Call_train ?a \<in> set (trace (snd (main example_externals example_flags ?tfc example_fs)))"
    by (simp add: run_defs)
  have "arg_worker_replicas ?a = int (length [JStr ''h1:2222'', JStr ''h2:2222'']) + 1"
    using worker_replicas_is_workers_plus_one [OF c w] t by blast
  then show ?thesis by simp
qed

subsection \<open>Workers without a parameter server\<close>

lemma make_task_info_default:
  "\<forall>t. map_of kvs ''task'' = Some t \<longrightarrow> \<not> py_truthy t \<Longrightarrow>
   make_task_info (JObj kvs) = Inr [(''type'', JStr ''master''), (''index'', JInt 0)]"
  by (cases "map_of kvs ''task''") (simp_all add: make_task_info_def)

lemma make_task_info_mapping:
  "\<forall>t. map_of kvs ''task'' = Some t \<longrightarrow> py_truthy t \<longrightarrow> (\<exists>a. t = JObj a) \<Longrightarrow>
   \<exists>ti. make_task_info (JObj kvs) = Inr ti"
  by (cases "map_of kvs ''task''") (auto simp: make_task_info_def)

lemma role_resolver_needs_ps:
  assumes "map_of kvs ''cluster'' = Some (JObj cl)"
    and "map_of cl ''worker'' = Some (JArr ws)" and "ws \<noteq> []"
    and "map_of cl ''ps'' = None \<or> map_of cl ''ps'' = Some (JArr [])"
  shows "fst (role_resolver X (Parsed (JObj kvs)) w) \<noteq> Inr r"
proof
  assume "fst (role_resolver X (Parsed (JObj kvs)) w) = Inr r"
  then obtain w' where "role_resolver X (Parsed (JObj kvs)) w = (Inr r, w')"
    by (cases "role_resolver X (Parsed (JObj kvs)) w") simp
  then obtain c ti nw np w1 where
    "get_worker_replicas (JObj cl) = Inr nw" "get_ps_tasks (JObj cl) = Inr np"
    "choose_mode X c ti nw np w1 = (Inr r, w')"
    unfolding role_resolver_def seq_returns lift_returns using assms(1) by auto
  with get_worker_replicas_list [OF assms(2)] get_ps_tasks_none [OF assms(4)] assms(3)
  show False by (simp add: choose_mode_def stop_with_apply)
qed

lemma role_resolver_raises_ValueError:
  assumes "map_of kvs ''cluster'' = Some (JObj cl)"
    and "map_of cl ''worker'' = Some (JArr ws)" and "ws \<noteq> []"
    and "map_of cl ''ps'' = None \<or> map_of cl ''ps'' = Some (JArr [])"
    and "ClusterSpec X (From_data (JObj cl)) = Inr c"
    and "\<forall>t. map_of kvs ''task'' = Some t \<longrightarrow> py_truthy t \<longrightarrow> (\<exists>a. t = JObj a)"
  shows "role_resolver X (Parsed (JObj kvs)) w =
     (Inl (Raise (ValueError ''At least 1 ps task is needed for distributed training.'')),
      w\<lparr>trace := trace w @ [Call_ClusterSpec (From_data (JObj cl))]\<rparr>)"
proof -
  from assms(2) have "cl \<noteq> []" by auto
  moreover from make_task_info_mapping [OF assms(6)] obtain ti where
    "make_task_info (JObj kvs) = Inr ti" by blast
  ultimately show ?thesis
    using assms(1,3,5) get_worker_replicas_list [OF assms(2)] get_ps_tasks_none [OF assms(4)]
    by (simp add: role_resolver_def make_cluster_def choose_mode_def step_apply seq_apply
        ext_call_apply)
qed

text \<open>
  C1. Take a descriptor whose \<open>cluster\<close> entry holds a non-empty \<open>worker\<close> list and no
  \<open>ps\<close> list, or an empty one. Then \<open>main\<close> never calls the trainer. When the
  \<open>ClusterSpec\<close> constructor accepts the cluster and the \<open>task\<close> entry is absent,
  empty or a mapping, the role resolution raises the ValueError of line 188, having
  called nothing but that constructor; and when the steps before the role resolution
  return, this ValueError is what \<open>main\<close> raises.
\<close>

theorem workers_without_ps_fail:
  assumes "map_of kvs ''cluster'' = Some (JObj cl)"
    and "map_of cl ''worker'' = Some (JArr ws)" and "ws \<noteq> []"
    and "map_of cl ''ps'' = None \<or> map_of cl ''ps'' = Some (JArr [])"
  shows "(\<forall>a. Call_train a \<notin> set (trace (snd (main X F (Parsed (JObj kvs)) fs0))))
    \<and> (ClusterSpec X (From_data (JObj cl)) = Inr c \<and>
       (\<forall>t. map_of kvs ''task'' = Some t \<longrightarrow> py_truthy t \<longrightarrow> (\<exists>a. t = JObj a)) \<longrightarrow>
         role_resolver X (Parsed (JObj kvs)) w =
           (Inl (Raise (ValueError ''At least 1 ps task is needed for distributed training.'')),
            w\<lparr>trace := trace w @ [Call_ClusterSpec (From_data (JObj cl))]\<rparr>)
         \<and> (\<forall>configs w1. configure X F \<lparr>fs = fs0, trace = []\<rparr> = (Inr configs, w1) \<longrightarrow>
              fst (main X F (Parsed (JObj kvs)) fs0) =
                Inl (Raise (ValueError
                  ''At least 1 ps task is needed for distributed training.''))))"
proof (intro conjI allI impI)
  fix a
  show "Call_train a \<notin> set (trace (snd (main X F (Parsed (JObj kvs)) fs0)))"
    by (rule main_no_role_no_train) (rule role_resolver_needs_ps [OF assms])
next
  assume h: "ClusterSpec X (From_data (JObj cl)) = Inr c \<and>
    (\<forall>t. map_of kvs ''task'' = Some t \<longrightarrow> py_truthy t \<longrightarrow> (\<exists>a. t = JObj a))"
  then have r: "role_resolver X (Parsed (JObj kvs)) w' =
     (Inl (Raise (ValueError ''At least 1 ps task is needed for distributed training.'')),
      w'\<lparr>trace := trace w' @ [Call_ClusterSpec (From_data (JObj cl))]\<rparr>)" for w'
    using role_resolver_raises_ValueError [OF assms] by blast
  show "role_resolver X (Parsed (JObj kvs)) w =
     (Inl (Raise (ValueError ''At least 1 ps task is needed for distributed training.'')),
      w\<lparr>trace := trace w @ [Call_ClusterSpec (From_data (JObj cl))]\<rparr>)"
    by (rule r)
  fix configs w1
  assume "configure X F \<lparr>fs = fs0, trace = []\<rparr> = (Inr configs, w1)"
  with r [of w1] have "prepare X F (Parsed (JObj kvs)) \<lparr>fs = fs0, trace = []\<rparr> =
     (Inl (Raise (ValueError ''At least 1 ps task is needed for distributed training.'')),
      w1\<lparr>trace := trace w1 @ [Call_ClusterSpec (From_data (JObj cl))]\<rparr>)"
    by (simp add: prepare_def seq_apply)
  from main_not_prepared [OF this]
  show "fst (main X F (Parsed (JObj kvs)) fs0) =
     Inl (Raise (ValueError ''At least 1 ps task is needed for distributed training.''))"
    by simp
qed

theorem workers_without_ps_fail_witness:
  "fst (main example_externals example_flags
          (Parsed (JObj [(''cluster'', JObj [(''worker'', JArr [JStr ''h1:2222''])])]))
          example_fs)
     = Inl (Raise (ValueError ''At least 1 ps task is needed for distributed training.''))
   \<and> (\<forall>a. Call_train a \<notin> set (trace (snd (main example_externals example_flags
          (Parsed (JObj [(''cluster'', JObj [(''worker'', JArr [JStr ''h1:2222''])])]))
          example_fs))))"
proof -
  let ?cl = "[(''worker'', JArr [JStr ''h1:2222''])]"
  let ?kvs = "[(''cluster'', JObj ?cl)]"
  let ?w0 = "\<lparr>fs = example_fs, trace = []\<rparr>"
  have 1: "map_of ?kvs ''cluster'' = Some (JObj ?cl)" by simp
  have 2: "map_of ?cl ''worker'' = Some (JArr [JStr ''h1:2222''])" by simp
  have 3: "[JStr ''h1:2222''] \<noteq> []" by simp
  have 4: "map_of ?cl ''ps'' = None \<or> map_of ?cl ''ps'' = Some (JArr [])" by simp
  have 5: "ClusterSpec example_externals (From_data (JObj ?cl)) = Inr (ClusterSpec_object (JObj ?cl))"
    by (simp add: example_externals_def)
  have 6: "\<forall>t. map_of ?kvs ''task'' = Some t \<longrightarrow> py_truthy t \<longrightarrow> (\<exists>a. t = JObj a)" by simp
  have 7: "configure example_externals example_flags ?w0 =
      (Inr (projr (fst (configure example_externals example_flags ?w0))),
       snd (configure example_externals example_flags ?w0))"
    by (simp add: run_defs)
  from workers_without_ps_fail [OF 1 2 3 4, of example_externals example_flags example_fs
      "ClusterSpec_object (JObj ?cl)" ?w0] 5 6 7
  show ?thesis by blast
qed

subsection \<open>The distributed mode\<close>

lemma get_ps_tasks_truthy: "get_ps_tasks cd = Inr np \<Longrightarrow> 0 < np \<Longrightarrow> py_truthy cd"
  by (auto simp: get_ps_tasks_def split: if_splits)

lemma str_int_0: "str_int 0 = ''0''"
  by (simp add: str_int_def str_nat.simps)

text \<open>
  C10. Take a descriptor with a \<open>cluster\<close> mapping whose \<open>task\<close> entry is absent or
  empty (or false in any other way). Then the task descriptor is the default one, of type
  \<open>master\<close> and index 0. In the distributed mode, when the two \<open>ClusterSpec\<close> calls
  and the \<open>Server\<close> call return, the role resolution returns the job name
  \<open>master/task:0\<close>, the task 0 and the chief flag, with the counts of the cluster and
  the target of the server, and it has started the server for the job \<open>master\<close> and the
  task index 0.
\<close>

theorem default_task_is_master:
  assumes "map_of kvs ''cluster'' = Some (JObj cl)"
    and "\<forall>t. map_of kvs ''task'' = Some t \<longrightarrow> \<not> py_truthy t"
    and "get_worker_replicas (JObj cl) = Inr nw" and "get_ps_tasks (JObj cl) = Inr np"
    and "1 \<le> nw" and "0 < np"
    and "ClusterSpec X (From_data (JObj cl)) = Inr c"
    and "ClusterSpec X (From_spec c) = Inr c'"
    and "Server X c' ''grpc'' (JStr ''master'') (JInt 0) = Inr srv"
  shows "make_task_info (JObj kvs) = Inr [(''type'', JStr ''master''), (''index'', JInt 0)]
    \<and> role_resolver X (Parsed (JObj kvs)) w =
        (Inr \<lparr>ps_tasks = np, worker_replicas = nw, worker_job_name = ''master/task:0'',
              task = JInt 0, is_chief = True, master = target srv\<rparr>,
         w\<lparr>trace := trace w @
             [Call_ClusterSpec (From_data (JObj cl)), Call_ClusterSpec (From_spec c),
              Call_Server c' ''grpc'' (JStr ''master'') (JInt 0)]\<rparr>)"
proof -
  have ti: "make_task_info (JObj kvs) = Inr [(''type'', JStr ''master''), (''index'', JInt 0)]"
    using assms(2) by (rule make_task_info_default)
  have truthy: "py_truthy (JObj cl)"
    using assms(4,6) by (rule get_ps_tasks_truthy)
  have "role_resolver X (Parsed (JObj kvs)) w =
        (Inr \<lparr>ps_tasks = np, worker_replicas = nw, worker_job_name = ''master/task:0'',
              task = JInt 0, is_chief = True, master = target srv\<rparr>,
         w\<lparr>trace := trace w @
             [Call_ClusterSpec (From_data (JObj cl)), Call_ClusterSpec (From_spec c),
              Call_Server c' ''grpc'' (JStr ''master'') (JInt 0)]\<rparr>)"
    using assms(1,3-9) ti truthy
    by (simp add: role_resolver_def make_cluster_def choose_mode_def distributed_setup_def
        step_apply seq_apply ext_call_apply getattr_def single_worker_def str_int_0)
  with ti show ?thesis by simp
qed

theorem default_task_is_master_witness:
  "fst (role_resolver example_externals (Parsed (JObj [(''cluster'', JObj example_cluster)]))
          \<lparr>fs = example_fs, trace = []\<rparr>)
   = Inr \<lparr>ps_tasks = 1, worker_replicas = 3, worker_job_name = ''master/task:0'',
          task = JInt 0, is_chief = True, master = ''grpc://localhost:2222''\<rparr>"
proof -
  let ?kvs = "[(''cluster'', JObj example_cluster)]"
  let ?c = "ClusterSpec_object (JObj example_cluster)"
  have 1: "map_of ?kvs ''cluster'' = Some (JObj example_cluster)" by simp
  have 2: "\<forall>t. map_of ?kvs ''task'' = Some t \<longrightarrow> \<not> py_truthy t" by simp
  have 3: "get_worker_replicas (JObj example_cluster) = Inr 3"
    by (simp add: get_worker_replicas_def example_cluster_def)
  have 4: "get_ps_tasks (JObj example_cluster) = Inr 1"
    by (simp add: get_ps_tasks_def example_cluster_def)
  have 5: "(1::int) \<le> 3" by simp
  have 6: "(0::int) < 1" by simp
  have 7: "ClusterSpec example_externals (From_data (JObj example_cluster)) = Inr ?c"
    by (simp add: example_externals_def)
  have 8: "ClusterSpec example_externals (From_spec ?c) = Inr ?c"
    by (simp add: example_externals_def)
  have 9: "Server example_externals ?c ''grpc'' (JStr ''master'') (JInt 0) =
             Inr \<lparr>target = ''grpc://localhost:2222''\<rparr>"
    by (simp add: example_externals_def)
  from default_task_is_master [OF 1 2 3 4 5 6 7 8 9, of "\<lparr>fs = example_fs, trace = []\<rparr>"]
  show ?thesis by simp
qed

lemma distributed_setup_ps:
  assumes "map_of ti ''type'' = Some (JStr ''ps'')"
  shows "distributed_setup X c ti r w \<noteq> (Inr r', w')"
  using assms
  by (auto simp: distributed_setup_def Let_def step_apply getattr_def
      split: sum.splits join_result.splits option.splits)

lemma role_resolver_ps:
  assumes "map_of kvs ''cluster'' = Some cd"
    and "get_worker_replicas cd = Inr nw" and "get_ps_tasks cd = Inr np"
    and "1 \<le> nw" and "0 < np"
    and "map_of kvs ''task'' = Some (JObj ti)" and "map_of ti ''type'' = Some (JStr ''ps'')"
  shows "fst (role_resolver X (Parsed (JObj kvs)) w) \<noteq> Inr r"
proof
  assume "fst (role_resolver X (Parsed (JObj kvs)) w) = Inr r"
  then obtain w' where "role_resolver X (Parsed (JObj kvs)) w = (Inr r, w')"
    by (cases "role_resolver X (Parsed (JObj kvs)) w") simp
  moreover from assms(7) have "ti \<noteq> []" by auto
  then have "make_task_info (JObj kvs) = Inr ti"
    using assms(6) by (simp add: make_task_info_def)
  ultimately obtain c w1 where "choose_mode X c ti nw np w1 = (Inr r, w')"
    unfolding role_resolver_def seq_returns lift_returns using assms(1-3) by auto
  with assms(4,5) distributed_setup_ps [OF assms(7)] show False
    by (auto simp: choose_mode_def split: if_splits)
qed

text \<open>
  C5. In the distributed mode (at least one worker replica and at least one parameter
  server task counted) a task whose type is \<open>ps\<close> never reaches the call of the trainer,
  whatever the collaborators do. When the steps before return, the last call of \<open>main\<close>
  is the join on the server: \<open>main\<close> blocks when the join blocks, and when the join
  returns or raises, \<open>main\<close> ends likewise, without training.
\<close>

theorem parameter_server_never_trains:
  assumes "map_of kvs ''cluster'' = Some cd"
    and "get_worker_replicas cd = Inr nw" and "get_ps_tasks cd = Inr np"
    and "1 \<le> nw" and "0 < np"
    and "map_of kvs ''task'' = Some (JObj ti)" and "map_of ti ''type'' = Some (JStr ''ps'')"
  shows "(\<forall>a. Call_train a \<notin> set (trace (snd (main X F (Parsed (JObj kvs)) fs0))))
    \<and> (\<forall>configs w1 c c' idx srv.
          configure X F \<lparr>fs = fs0, trace = []\<rparr> = (Inr configs, w1) \<and>
          ClusterSpec X (From_data cd) = Inr c \<and> ClusterSpec X (From_spec c) = Inr c' \<and>
          map_of ti ''index'' = Some idx \<and> Server X c' ''grpc'' (JStr ''ps'') idx = Inr srv \<longrightarrow>
          main X F (Parsed (JObj kvs)) fs0 =
            (case join X srv of
               Join_blocks \<Rightarrow> Inl Block
             | Join_returns \<Rightarrow> Inr ()
             | Join_raises e \<Rightarrow> Inl (Raise e),
             w1\<lparr>trace := trace w1 @
                  [Call_ClusterSpec (From_data cd), Call_ClusterSpec (From_spec c),
                   Call_Server c' ''grpc'' (JStr ''ps'') idx, Call_join srv]\<rparr>))"
proof (intro conjI allI impI)
  fix a
  show "Call_train a \<notin> set (trace (snd (main X F (Parsed (JObj kvs)) fs0)))"
    by (rule main_no_role_no_train) (rule role_resolver_ps [OF assms])
next
  fix configs w1 c c' idx srv
  assume h: "configure X F \<lparr>fs = fs0, trace = []\<rparr> = (Inr configs, w1) \<and>
          ClusterSpec X (From_data cd) = Inr c \<and> ClusterSpec X (From_spec c) = Inr c' \<and>
          map_of ti ''index'' = Some idx \<and> Server X c' ''grpc'' (JStr ''ps'') idx = Inr srv"
  let ?w = "w1\<lparr>trace := trace w1 @
                  [Call_ClusterSpec (From_data cd), Call_ClusterSpec (From_spec c),
                   Call_Server c' ''grpc'' (JStr ''ps'') idx, Call_join srv]\<rparr>"
  let ?s = "case join X srv of Join_blocks \<Rightarrow> Block | Join_returns \<Rightarrow> Return
              | Join_raises e \<Rightarrow> Raise e"
  from assms(7) have "ti \<noteq> []" by auto
  then have ti: "make_task_info (JObj kvs) = Inr ti"
    using assms(6) by (simp add: make_task_info_def)
  have truthy: "py_truthy cd"
    using assms(3,5) by (rule get_ps_tasks_truthy)
  have "role_resolver X (Parsed (JObj kvs)) w1 = (Inl ?s, ?w)"
    using assms h ti truthy
    by (simp add: role_resolver_def make_cluster_def choose_mode_def distributed_setup_def
        step_apply seq_apply ext_call_apply emit_apply getattr_def split: join_result.splits)
  with h have "prepare X F (Parsed (JObj kvs)) \<lparr>fs = fs0, trace = []\<rparr> = (Inl ?s, ?w)"
    by (simp add: prepare_def seq_apply)
  from main_not_prepared [OF this]
  show "main X F (Parsed (JObj kvs)) fs0 =
            (case join X srv of
               Join_blocks \<Rightarrow> Inl Block
             | Join_returns \<Rightarrow> Inr ()
             | Join_raises e \<Rightarrow> Inl (Raise e), ?w)"
    by (simp split: join_result.splits)
qed

theorem parameter_server_never_trains_witness:
  "fst (main example_externals example_flags
          (Parsed (JObj [(''cluster'', JObj example_cluster),
                         (''task'', JObj [(''type'', JStr ''ps''), (''index'', JInt 0)])]))
          example_fs) = Inl Block
   \<and> (\<forall>a. Call_train a \<notin> set (trace (snd (main example_externals example_flags
          (Parsed (JObj [(''cluster'', JObj example_cluster),
                         (''task'', JObj [(''type'', JStr ''ps''), (''index'', JInt 0)])]))
          example_fs))))"
proof -
  let ?ti = "[(''type'', JStr ''ps''), (''index'', JInt 0)]"
  let ?kvs = "[(''cluster'', JObj example_cluster), (''task'', JObj ?ti)]"
  let ?c = "ClusterSpec_object (JObj example_cluster)"
  let ?w0 = "\<lparr>fs = example_fs, trace = []\<rparr>"
  have 1: "map_of ?kvs ''cluster'' = Some (JObj example_cluster)" by simp
  have 2: "get_worker_replicas (JObj example_cluster) = Inr 3"
    by (simp add: get_worker_replicas_def example_cluster_def)
  have 3: "get_ps_tasks (JObj example_cluster) = Inr 1"
    by (simp add: get_ps_tasks_def example_cluster_def)
  have 4: "(1::int) \<le> 3" by simp
  have 5: "(0::int) < 1" by simp
  have 6: "map_of ?kvs ''task'' = Some (JObj ?ti)" by simp
  have 7: "map_of ?ti ''type'' = Some (JStr ''ps'')" by simp
  have 8: "configure example_externals example_flags ?w0 =
      (Inr (projr (fst (configure example_externals example_flags ?w0))),
       snd (configure example_externals example_flags ?w0))"
    by (simp add: run_defs)
  have 9: "ClusterSpec example_externals (From_data (JObj example_cluster)) = Inr ?c"
    "ClusterSpec example_externals (From_spec ?c) = Inr ?c"
    "map_of ?ti ''index'' = Some (JInt 0)"
    "Server example_externals ?c ''grpc'' (JStr ''ps'') (JInt 0) =
       Inr \<lparr>target = ''grpc://localhost:2222''\<rparr>"
    "join example_externals \<lparr>target = ''grpc://localhost:2222''\<rparr> = Join_blocks"
    by (simp_all add: example_externals_def)
  note t = parameter_server_never_trains [OF 1 2 3 4 5 6 7,
      of example_externals example_flags example_fs]
  from t have a: "\<forall>a. Call_train a \<notin> set (trace (snd (main example_externals example_flags
      (Parsed (JObj ?kvs)) example_fs)))" by blast
  from t 8 9 have "main example_externals example_flags (Parsed (JObj ?kvs)) example_fs =
      (case join example_externals \<lparr>target = ''grpc://localhost:2222''\<rparr> of
               Join_blocks \<Rightarrow> Inl Block
             | Join_returns \<Rightarrow> Inr ()
             | Join_raises e \<Rightarrow> Inl (Raise e),
       (snd (configure example_externals example_flags ?w0))
         \<lparr>trace := trace (snd (configure example_externals example_flags ?w0)) @
            [Call_ClusterSpec (From_data (JObj example_cluster)), Call_ClusterSpec (From_spec ?c),
             Call_Server ?c ''grpc'' (JStr ''ps'') (JInt 0),
             Call_join \<lparr>target = ''grpc://localhost:2222''\<rparr>]\<rparr>)"
    by blast
  with 9(5) a show ?thesis by simp
qed

subsection \<open>The step count\<close>

lemma seq_ret_right: "seq m ret = m"
  by (rule ext) (simp add: seq_apply ret_apply split: prod.splits sum.splits)

lemma config_resolver_result:
  assumes "config_resolver X F w = (Inr configs, w')"
  shows "\<exists>loaded w1. load_configs X F w = (Inr loaded, w1) \<and>
           configs = (if FLAGS_n_steps F > 0
                      then loaded\<lparr>cfg_train_config :=
                             (cfg_train_config loaded)\<lparr>num_steps := FLAGS_n_steps F\<rparr>\<rparr>
                      else loaded)"
proof -
  from assms obtain loaded w1 where l: "load_configs X F w = (Inr loaded, w1)"
    and o: "override_n_steps F loaded w1 = (Inr configs, w')"
    unfolding config_resolver_def seq_returns by blast
  from o have "configs = (if FLAGS_n_steps F > 0
                      then loaded\<lparr>cfg_train_config :=
                             (cfg_train_config loaded)\<lparr>num_steps := FLAGS_n_steps F\<rparr>\<rparr>
                      else loaded)"
    by (auto simp: override_n_steps_def seq_apply print_apply ret_apply split: if_splits)
  with l show ?thesis by blast
qed

lemma configure_result:
  assumes "configure X F w = (Inr configs, w')"
  shows "\<exists>w1. config_resolver X F w1 = (Inr configs, w')"
  using assms unfolding configure_def seq_returns by blast

text \<open>The training configuration that the trainer is called with.\<close>

lemma main_train_config:
  assumes "Call_train a \<in> set (trace (snd (main X F tfc fs0)))"
  shows "\<exists>loaded w w'. load_configs X F w = (Inr loaded, w') \<and>
           arg_train_config a =
             (if FLAGS_n_steps F > 0
              then (cfg_train_config loaded)\<lparr>num_steps := FLAGS_n_steps F\<rparr>
              else cfg_train_config loaded)"
proof -
  from main_train_event [OF assms] obtain w where
    "prepare X F tfc \<lparr>fs = fs0, trace = []\<rparr> = (Inr a, w)" by blast
  from prepare_result [OF this] obtain configs r hook w1 where
    c: "configure X F \<lparr>fs = fs0, trace = []\<rparr> = (Inr configs, w1)"
    and a: "a = make_train_args F configs r hook" by blast
  from configure_result [OF c] obtain w2 where
    "config_resolver X F w2 = (Inr configs, w1)" by blast
  from config_resolver_result [OF this] obtain loaded w3 where
    l: "load_configs X F w2 = (Inr loaded, w3)"
    and "configs = (if FLAGS_n_steps F > 0
                    then loaded\<lparr>cfg_train_config :=
                           (cfg_train_config loaded)\<lparr>num_steps := FLAGS_n_steps F\<rparr>\<rparr>
                    else loaded)" by blast
  with a have "arg_train_config a =
             (if FLAGS_n_steps F > 0
              then (cfg_train_config loaded)\<lparr>num_steps := FLAGS_n_steps F\<rparr>
              else cfg_train_config loaded)"
    by (simp add: make_train_args_def)
  with l show ?thesis by blast
qed

text \<open>
  C7. With a positive \<open>n_steps\<close>, the bundle that the configuration step returns has
  this step count whatever the loader returned, and so has the training configuration in
  every call of the trainer, the only place where \<open>main\<close> hands it on. With an
  \<open>n_steps\<close> that is not positive, the configuration step is the loading alone, and the
  trainer gets the training configuration as loaded.
\<close>

theorem n_steps_overrides_num_steps:
  "(0 < FLAGS_n_steps F \<longrightarrow>
      (\<forall>w configs w'. config_resolver X F w = (Inr configs, w') \<longrightarrow>
         num_steps (cfg_train_config configs) = FLAGS_n_steps F)
      \<and> (\<forall>tfc fs0 a. Call_train a \<in> set (trace (snd (main X F tfc fs0))) \<longrightarrow>
         num_steps (arg_train_config a) = FLAGS_n_steps F))
   \<and> (\<not> 0 < FLAGS_n_steps F \<longrightarrow>
      config_resolver X F = load_configs X F
      \<and> (\<forall>tfc fs0 a. Call_train a \<in> set (trace (snd (main X F tfc fs0))) \<longrightarrow>
         (\<exists>loaded w w'. load_configs X F w = (Inr loaded, w') \<and>
            arg_train_config a = cfg_train_config loaded)))"
proof (intro conjI impI allI)
  fix w configs w'
  assume "0 < FLAGS_n_steps F" "config_resolver X F w = (Inr configs, w')"
  with config_resolver_result [of X F w configs w']
  show "num_steps (cfg_train_config configs) = FLAGS_n_steps F" by auto
next
  fix tfc fs0 a
  assume "0 < FLAGS_n_steps F" "Call_train a \<in> set (trace (snd (main X F tfc fs0)))"
  with main_train_config [of a X F tfc fs0]
  show "num_steps (arg_train_config a) = FLAGS_n_steps F" by auto
next
  assume n: "\<not> 0 < FLAGS_n_steps F"
  then have "override_n_steps F = ret"
    by (simp add: override_n_steps_def fun_eq_iff)
  then show "config_resolver X F = load_configs X F"
    by (simp add: config_resolver_def seq_ret_right)
  fix tfc fs0 a
  assume "Call_train a \<in> set (trace (snd (main X F tfc fs0)))"
  with main_train_config [of a X F tfc fs0] n
  show "\<exists>loaded w w'. load_configs X F w = (Inr loaded, w') \<and>
            arg_train_config a = cfg_train_config loaded" by auto
qed

theorem n_steps_overrides_num_steps_witness:
  "FLAGS_n_steps example_flags = 500
   \<and> num_steps (cfg_train_config example_configs) = 200000
   \<and> num_steps (arg_train_config (projr (fst (prepare example_externals example_flags Unset
        \<lparr>fs = example_fs, trace = []\<rparr>)))) = 500
   \<and> config_resolver example_externals (example_flags\<lparr>FLAGS_n_steps := 0\<rparr>) =
       load_configs example_externals (example_flags\<lparr>FLAGS_n_steps := 0\<rparr>)"
proof -
  let ?a = "projr (fst (prepare example_externals example_flags Unset
                          \<lparr>fs = example_fs, trace = []\<rparr>))"
  have t: "Call_train ?a \<in> set (trace (snd (main example_externals example_flags Unset example_fs)))"
    by (simp add: run_defs)
  have p: "0 < FLAGS_n_steps example_flags" "FLAGS_n_steps example_flags = 500"
    "num_steps (cfg_train_config example_configs) = 200000"
    by (simp_all add: example_flags_def example_configs_def)
  have z: "\<not> 0 < FLAGS_n_steps (example_flags\<lparr>FLAGS_n_steps := 0\<rparr>)" by simp
  from n_steps_overrides_num_steps [of example_flags example_externals] p(1) t
  have "num_steps (arg_train_config ?a) = FLAGS_n_steps example_flags" by blast
  moreover from n_steps_overrides_num_steps [of "example_flags\<lparr>FLAGS_n_steps := 0\<rparr>"
      example_externals] z
  have "config_resolver example_externals (example_flags\<lparr>FLAGS_n_steps := 0\<rparr>) =
       load_configs example_externals (example_flags\<lparr>FLAGS_n_steps := 0\<rparr>)" by blast
  ultimately show ?thesis using p by simp
qed

subsection \<open>The combined configuration file\<close>

lemma main_emits_only:
  assumes "emits_only P (seq (prepare X F tfc) (delegate X))"
  shows "list_all P (trace (snd (main X F tfc fs0)))"
  unfolding snd_main by (rule emits_only_trace [OF assms]) simp

lemma load_configs_pipeline:
  assumes "FLAGS_pipeline_config_path F \<noteq> []"
    and "load_configs X F w = (Inr configs, w')"
  shows "get_configs_from_pipeline_file X (fs w) (FLAGS_pipeline_config_path F) = Inr configs"
  using assms
  by (auto simp: load_configs_def seq_apply read_call_apply ret_apply
      split: sum.splits prod.splits if_splits)

text \<open>
  C6. With a non-empty \<open>pipeline_config_path\<close> the three separate paths have no
  influence on \<open>main\<close>: replacing them by any others gives the same result, the same
  file system and the same trace. The loader for separate files is never called, every
  copy that is made is the copy of the combined file to \<open>pipeline.config\<close>, and the
  bundle that the loading returns is the one that the loader for the combined file
  returned.
\<close>

theorem pipeline_config_path_takes_precedence:
  assumes "FLAGS_pipeline_config_path F \<noteq> []"
  shows "main X (F\<lparr>FLAGS_model_config_path := m, FLAGS_train_config_path := t,
                   FLAGS_input_config_path := i\<rparr>) tfc fs0 = main X F tfc fs0
    \<and> list_all (\<lambda>e. \<not> loads_separate_files e) (trace (snd (main X F tfc fs0)))
    \<and> (\<forall>s d b. Call_Copy s d b \<in> set (trace (snd (main X F tfc fs0))) \<longrightarrow>
          s = FLAGS_pipeline_config_path F \<and>
          d = path_join (FLAGS_train_dir F) ''pipeline.config'')
    \<and> (\<forall>w configs w'. load_configs X F w = (Inr configs, w') \<longrightarrow>
          get_configs_from_pipeline_file X (fs w) (FLAGS_pipeline_config_path F) = Inr configs)"
proof (intro conjI allI impI)
  let ?F = "F\<lparr>FLAGS_model_config_path := m, FLAGS_train_config_path := t,
               FLAGS_input_config_path := i\<rparr>"
  have "load_configs X ?F = load_configs X F"
    using assms by (simp add: load_configs_def cong: if_cong)
  moreover have "override_n_steps ?F = override_n_steps F"
    by (simp add: override_n_steps_def fun_eq_iff)
  ultimately have "config_resolver X ?F = config_resolver X F"
    by (simp add: config_resolver_def)
  moreover have "assert_train_dir ?F = assert_train_dir F"
    by (simp add: assert_train_dir_def)
  moreover have "reset_train ?F = reset_train F"
    by (simp add: reset_train_def cong: if_cong)
  moreover have "make_train_dir ?F = make_train_dir F"
    by (simp add: make_train_dir_def)
  ultimately have "configure X ?F = configure X F"
    by (simp add: configure_def)
  moreover have "make_train_args ?F = make_train_args F"
    by (simp add: make_train_args_def fun_eq_iff)
  ultimately show "main X ?F tfc fs0 = main X F tfc fs0"
    by (simp add: main_def prepare_def)
next
  have "emits_only (\<lambda>e. \<not> loads_separate_files e) (seq (prepare X F tfc) (delegate X))"
    unfolding main_parts using assms by (intro emits_only_structure; simp)
  then show "list_all (\<lambda>e. \<not> loads_separate_files e) (trace (snd (main X F tfc fs0)))"
    by (rule main_emits_only)
next
  fix s d b
  let ?P = "\<lambda>e. case e of
      Call_Copy s d b \<Rightarrow> s = FLAGS_pipeline_config_path F \<and>
                         d = path_join (FLAGS_train_dir F) ''pipeline.config''
    | _ \<Rightarrow> True"
  assume c: "Call_Copy s d b \<in> set (trace (snd (main X F tfc fs0)))"
  have "emits_only ?P (seq (prepare X F tfc) (delegate X))"
    unfolding main_parts using assms by (intro emits_only_structure; simp)
  then have "list_all ?P (trace (snd (main X F tfc fs0)))"
    by (rule main_emits_only)
  with c have "?P (Call_Copy s d b)"
    unfolding list_all_iff by blast
  then show "s = FLAGS_pipeline_config_path F"
    and "d = path_join (FLAGS_train_dir F) ''pipeline.config''" by simp_all
next
  fix w configs w'
  assume "load_configs X F w = (Inr configs, w')"
  with assms show
    "get_configs_from_pipeline_file X (fs w) (FLAGS_pipeline_config_path F) = Inr configs"
    by (rule load_configs_pipeline)
qed

theorem pipeline_config_path_takes_precedence_witness:
  "FLAGS_pipeline_config_path example_flags \<noteq> []
   \<and> main example_externals
       (example_flags\<lparr>FLAGS_model_config_path := ''m.config'',
          FLAGS_train_config_path := ''t.config'', FLAGS_input_config_path := ''i.config''\<rparr>)
       Unset example_fs
     = main example_externals example_flags Unset example_fs
   \<and> Call_get_configs_from_pipeline_file ''p.config''
       \<in> set (trace (snd (main example_externals example_flags Unset example_fs)))
   \<and> list_all (\<lambda>e. \<not> loads_separate_files e)
       (trace (snd (main example_externals example_flags Unset example_fs)))"
proof -
  have p: "FLAGS_pipeline_config_path example_flags \<noteq> []"
    by (simp add: example_flags_def)
  have l: "Call_get_configs_from_pipeline_file ''p.config''
       \<in> set (trace (snd (main example_externals example_flags Unset example_fs)))"
    by (simp add: run_defs)
  from pipeline_config_path_takes_precedence [OF p, where X = example_externals
      and m = "''m.config''" and t = "''t.config''" and i = "''i.config''"
      and tfc = Unset and ?fs0.0 = example_fs] p l
  show ?thesis by blast
qed

subsection \<open>Who writes to the training directory\<close>

lemma keeps_fs_ret: "keeps_fs (ret x)"
  by (simp add: keeps_fs_def ret_def)

lemma keeps_fs_stop_with: "keeps_fs (stop_with s)"
  by (simp add: keeps_fs_def stop_with_def)

lemma keeps_fs_lift: "keeps_fs (lift r)"
  by (cases r) (simp_all add: keeps_fs_ret keeps_fs_stop_with)

lemma keeps_fs_emit: "keeps_fs (emit ev)"
  by (simp add: keeps_fs_def emit_def)

lemma keeps_fs_print: "keeps_fs (print s)"
  by (simp add: print_def keeps_fs_emit)

lemma keeps_fs_os_path_isdir: "keeps_fs (os_path_isdir p)"
  by (simp add: keeps_fs_def os_path_isdir_def)

lemma keeps_fs_ext_call: "keeps_fs (ext_call ev r)"
  by (simp add: keeps_fs_def ext_call_apply split: sum.splits)

lemma keeps_fs_read_call: "keeps_fs (read_call ev f)"
  by (simp add: keeps_fs_def read_call_apply split: sum.splits)

lemma fs_kept_seq:
  assumes "fs (snd (m w)) = fs w" and "\<And>x w'. fs (snd (f x w')) = fs w'"
  shows "fs (snd (seq m f w)) = fs w"
proof (cases "m w")
  case (Pair r w')
  with assms(1) have "fs w' = fs w" by simp
  with Pair assms(2) show ?thesis
    by (cases r) (simp_all add: seq_apply)
qed

lemma keeps_fs_seq: "keeps_fs m \<Longrightarrow> (\<And>x. keeps_fs (f x)) \<Longrightarrow> keeps_fs (seq m f)"
  unfolding keeps_fs_def by (auto intro: fs_kept_seq)

lemma keeps_fs_try_except:
  assumes "keeps_fs m" and "\<And>e. keeps_fs (h e)"
  shows "keeps_fs (try_except m c h)"
  unfolding keeps_fs_def
proof
  fix w
  obtain r w' where mw: "m w = (r, w')" by (cases "m w")
  with assms(1) have "fs w' = fs w" by (auto simp: keeps_fs_def dest: spec [of _ w])
  moreover have "fs (snd (h e w')) = fs w'" for e
    using assms(2) by (simp add: keeps_fs_def)
  ultimately show "fs (snd (try_except m c h w)) = fs w"
    using mw by (simp add: try_except_def split: sum.splits stop.splits)
qed

lemma keeps_fs_if:
  "(c \<Longrightarrow> keeps_fs m) \<Longrightarrow> (\<not> c \<Longrightarrow> keeps_fs m') \<Longrightarrow> keeps_fs (if c then m else m')"
  by simp

lemma keeps_fs_case_option:
  "(x = None \<Longrightarrow> keeps_fs m) \<Longrightarrow> (\<And>y. x = Some y \<Longrightarrow> keeps_fs (f y)) \<Longrightarrow>
   keeps_fs (case x of None \<Rightarrow> m | Some y \<Rightarrow> f y)"
  by (cases x) simp_all

lemma keeps_fs_case_join_result:
  "keeps_fs a \<Longrightarrow> keeps_fs c \<Longrightarrow> (\<And>e. keeps_fs (b e)) \<Longrightarrow>
   keeps_fs (case x of Join_blocks \<Rightarrow> a | Join_returns \<Rightarrow> c | Join_raises e \<Rightarrow> b e)"
  by (cases x) simp_all

lemmas keeps_fs_structure =
  keeps_fs_ret keeps_fs_stop_with keeps_fs_lift keeps_fs_emit keeps_fs_print
  keeps_fs_os_path_isdir keeps_fs_ext_call keeps_fs_read_call keeps_fs_seq
  keeps_fs_try_except keeps_fs_if keeps_fs_case_option keeps_fs_case_join_result

text \<open>A task other than task 0 touches the file system in the reset only.\<close>

lemma keeps_fs_after_reset:
  assumes "FLAGS_task F \<noteq> 0"
  shows "keeps_fs (seq (make_train_dir F) (\<lambda>_. config_resolver X F))"
  unfolding make_train_dir_def config_resolver_def load_configs_def override_n_steps_def
  using assms by (intro keeps_fs_structure; simp)

lemma keeps_fs_after_configure:
  "keeps_fs (seq (role_resolver X tfc) (\<lambda>r.
     seq (build_graph_rewriter X configs) (\<lambda>hook.
     seq (print (''pid: '' @ str_int (getpid X))) (\<lambda>_.
     ret (make_train_args F configs r hook)))))"
  unfolding role_resolver_def make_cluster_def choose_mode_def distributed_setup_def
    build_graph_rewriter_def Let_def
  by (intro keeps_fs_structure; simp)

lemma keeps_fs_delegate: "keeps_fs (delegate X a)"
  unfolding delegate_def by (intro keeps_fs_structure)

lemma reset_train_skipped:
  assumes "FLAGS_reset_train F = 0 \<or> \<not> isdir (fs w) (FLAGS_train_dir F)"
  shows "reset_train F w = (Inr (), w)"
  using assms by (auto simp: reset_train_def seq_apply os_path_isdir_apply ret_apply)

lemma configure_keeps_fs:
  assumes "FLAGS_task F \<noteq> 0"
    and "FLAGS_reset_train F = 0 \<or> \<not> isdir (fs w) (FLAGS_train_dir F)"
  shows "fs (snd (configure X F w)) = fs w"
proof (cases "FLAGS_train_dir F = []")
  case True
  then show ?thesis
    by (simp add: configure_def assert_train_dir_def stop_with_apply)
next
  case False
  then have "configure X F w = seq (make_train_dir F) (\<lambda>_. config_resolver X F) w"
    using reset_train_skipped [OF assms(2)]
    by (simp add: configure_def assert_train_dir_def seq_Inr)
  with keeps_fs_after_reset [OF assms(1), of X] show ?thesis
    by (simp add: keeps_fs_def)
qed

lemma main_keeps_fs:
  assumes "FLAGS_task F \<noteq> 0"
    and "FLAGS_reset_train F = 0 \<or> \<not> isdir fs0 (FLAGS_train_dir F)"
  shows "fs (snd (main X F tfc fs0)) = fs0"
proof -
  let ?w = "\<lparr>fs = fs0, trace = []\<rparr>"
  have c: "fs (snd (configure X F ?w)) = fs ?w"
    using assms by (intro configure_keeps_fs) simp_all
  have "fs (snd (prepare X F tfc ?w)) = fs ?w"
    unfolding prepare_def
  proof (rule fs_kept_seq)
    show "fs (snd (configure X F ?w)) = fs ?w" by (rule c)
  next
    fix configs w'
    show "fs (snd (seq (role_resolver X tfc) (\<lambda>r.
            seq (build_graph_rewriter X configs) (\<lambda>hook.
            seq (print (''pid: '' @ str_int (getpid X))) (\<lambda>_.
            ret (make_train_args F configs r hook)))) w')) = fs w'"
      using keeps_fs_after_configure [of X tfc configs F] by (simp add: keeps_fs_def)
  qed
  then have "fs (snd (seq (prepare X F tfc) (delegate X) ?w)) = fs ?w"
  proof (rule fs_kept_seq)
    fix a w'
    show "fs (snd (delegate X a w')) = fs w'"
      using keeps_fs_delegate [of X a] by (simp add: keeps_fs_def)
  qed
  then show ?thesis by (simp add: snd_main)
qed

lemma ret_returns: "ret x w = (Inr y, w') \<longleftrightarrow> y = x \<and> w' = w"
  by (auto simp: ret_apply)

lemma print_returns:
  "print s w = (Inr u, w') \<longleftrightarrow> w' = w\<lparr>trace := trace w @ [Print s]\<rparr>"
  by (auto simp: print_apply)

lemma read_call_returns:
  "read_call ev f w = (Inr x, w') \<longleftrightarrow>
     f (fs w) = Inr x \<and> w' = w\<lparr>trace := trace w @ [ev]\<rparr>"
  by (auto simp: read_call_apply split: sum.splits)

lemma fs_call_returns:
  "fs_call ev op w = (Inr u, w') \<longleftrightarrow>
     (\<exists>s'. op (fs w) = Inr s' \<and> w' = w\<lparr>trace := trace w @ [ev], fs := s'\<rparr>)"
  by (auto simp: fs_call_apply split: sum.splits)

lemmas returns =
  seq_returns ret_returns print_returns read_call_returns fs_call_returns lift_returns

lemma map_of_filter_key:
  "map_of (filter (\<lambda>(k, v). P k) xs) q = (if P q then map_of xs q else None)"
  by (induction xs) auto

lemma Copy_result:
  assumes "Copy s a b ov = Inr s'"
  shows "dirs s' = dirs s" and "isfile s' b" and "isfile s q \<Longrightarrow> isfile s' q"
  using assms
  by (auto simp: Copy_def isfile_def map_of_filter_key split: option.splits if_splits)

lemma MakeDirs_result:
  assumes "MakeDirs s d = Inr s'"
  shows "isdir s' d" and "files s' = files s"
  using assms by (auto simp: MakeDirs_def isdir_def split: if_splits)

lemma emits_only_filter:
  assumes "emits_only (\<lambda>e. \<not> Q e) m"
  shows "filter Q (trace (snd (m w))) = filter Q (trace w)"
proof -
  from assms obtain evs where "trace (snd (m w)) = trace w @ evs"
    "list_all (\<lambda>e. \<not> Q e) evs"
    unfolding emits_only_def by blast
  then show ?thesis by (simp add: list_all_iff)
qed

lemma reset_train_no_copies:
  "filter creates_or_copies (trace (snd (reset_train F w))) = filter creates_or_copies (trace w)"
proof (rule emits_only_filter)
  show "emits_only (\<lambda>e. \<not> creates_or_copies e) (reset_train F)"
    unfolding reset_train_def by (intro emits_only_structure; simp)
qed

lemma override_n_steps_returns:
  assumes "override_n_steps F c w = (Inr configs, w')"
  shows "fs w' = fs w"
    and "filter creates_or_copies (trace w') = filter creates_or_copies (trace w)"
  using assms by (auto simp: override_n_steps_def returns split: if_splits)

lemma gfile_Copy_returns:
  assumes "gfile_Copy a b ov w = (Inr u, w')"
  shows "dirs (fs w') = dirs (fs w)" and "isfile (fs w') b"
    and "\<And>q. isfile (fs w) q \<Longrightarrow> isfile (fs w') q"
    and "trace w' = trace w @ [Call_Copy a b ov]"
proof -
  from assms obtain s' where c: "Copy (fs w) a b ov = Inr s'"
    and w': "w' = w\<lparr>trace := trace w @ [Call_Copy a b ov], fs := s'\<rparr>"
    unfolding gfile_Copy_def fs_call_returns by blast
  from w' Copy_result(1) [OF c] show "dirs (fs w') = dirs (fs w)" by simp
  from w' Copy_result(2) [OF c] show "isfile (fs w') b" by simp
  from w' show "trace w' = trace w @ [Call_Copy a b ov]" by simp
  fix q assume "isfile (fs w) q"
  with w' Copy_result(3) [OF c] show "isfile (fs w') q" by simp
qed

text \<open>What task 0 has written when the configuration is there.\<close>

lemma load_configs_combined_task_0:
  assumes "FLAGS_task F = 0" and "FLAGS_pipeline_config_path F \<noteq> []"
    and "load_configs X F w = (Inr configs, w')"
  shows "dirs (fs w') = dirs (fs w)"
    and "filter creates_or_copies (trace w') = filter creates_or_copies (trace w) @
       [Call_Copy (FLAGS_pipeline_config_path F)
          (path_join (FLAGS_train_dir F) ''pipeline.config'') True]"
    and "isfile (fs w') (path_join (FLAGS_train_dir F) ''pipeline.config'')"
proof -
  let ?p = "FLAGS_pipeline_config_path F"
  let ?d = "path_join (FLAGS_train_dir F) ''pipeline.config''"
  from assms obtain w1 u where
    r: "w1 = w\<lparr>trace := trace w @ [Call_get_configs_from_pipeline_file ?p]\<rparr>"
    and c: "gfile_Copy ?p ?d True w1 = (Inr u, w')"
    unfolding load_configs_def by (auto simp: returns)
  from gfile_Copy_returns(1) [OF c] r show "dirs (fs w') = dirs (fs w)" by simp
  from gfile_Copy_returns(2) [OF c] show "isfile (fs w') ?d" .
  from gfile_Copy_returns(4) [OF c] r
  show "filter creates_or_copies (trace w') = filter creates_or_copies (trace w) @
       [Call_Copy ?p ?d True]" by simp
qed

lemma load_configs_separate_task_0:
  assumes "FLAGS_task F = 0" and "FLAGS_pipeline_config_path F = []"
    and "load_configs X F w = (Inr configs, w')"
  shows "dirs (fs w') = dirs (fs w)"
    and "filter creates_or_copies (trace w') = filter creates_or_copies (trace w) @
       [Call_Copy (FLAGS_model_config_path F)
          (path_join (FLAGS_train_dir F) ''model.config'') True,
        Call_Copy (FLAGS_train_config_path F)
          (path_join (FLAGS_train_dir F) ''train.config'') True,
        Call_Copy (FLAGS_input_config_path F)
          (path_join (FLAGS_train_dir F) ''input.config'') True]"
    and "isfile (fs w') (path_join (FLAGS_train_dir F) ''model.config'') \<and>
         isfile (fs w') (path_join (FLAGS_train_dir F) ''train.config'') \<and>
         isfile (fs w') (path_join (FLAGS_train_dir F) ''input.config'')"
proof -
  let ?m = "FLAGS_model_config_path F" and ?t = "FLAGS_train_config_path F"
    and ?i = "FLAGS_input_config_path F"
  let ?dm = "path_join (FLAGS_train_dir F) ''model.config''"
    and ?dt = "path_join (FLAGS_train_dir F) ''train.config''"
    and ?di = "path_join (FLAGS_train_dir F) ''input.config''"
  from assms obtain w1 w2 w3 u1 u2 u3 where
    r: "w1 = w\<lparr>trace := trace w @ [Call_get_configs_from_multiple_files ?m ?t ?i]\<rparr>"
    and c1: "gfile_Copy ?m ?dm True w1 = (Inr u1, w2)"
    and c2: "gfile_Copy ?t ?dt True w2 = (Inr u2, w3)"
    and c3: "gfile_Copy ?i ?di True w3 = (Inr u3, w')"
    unfolding load_configs_def by (auto simp: returns)
  note g1 = gfile_Copy_returns [OF c1] and g2 = gfile_Copy_returns [OF c2]
    and g3 = gfile_Copy_returns [OF c3]
  from g1(1) g2(1) g3(1) r show "dirs (fs w') = dirs (fs w)" by simp
  from g1(4) g2(4) g3(4) r
  show "filter creates_or_copies (trace w') = filter creates_or_copies (trace w) @
       [Call_Copy ?m ?dm True, Call_Copy ?t ?dt True, Call_Copy ?i ?di True]" by simp
  from g1(2) g2(3) g3(3) have "isfile (fs w') ?dm" by blast
  moreover from g2(2) g3(3) have "isfile (fs w') ?dt" by blast
  moreover note g3(2)
  ultimately show "isfile (fs w') ?dm \<and> isfile (fs w') ?dt \<and> isfile (fs w') ?di" by simp
qed

lemma configure_task_0:
  assumes "FLAGS_task F = 0"
    and "configure X F \<lparr>fs = fs0, trace = []\<rparr> = (Inr configs, w)"
  shows "isdir (fs w) (FLAGS_train_dir F)"
    and "filter creates_or_copies (trace w) =
      Call_MakeDirs (FLAGS_train_dir F) #
      (if FLAGS_pipeline_config_path F \<noteq> []
       then [Call_Copy (FLAGS_pipeline_config_path F)
               (path_join (FLAGS_train_dir F) ''pipeline.config'') True]
       else [Call_Copy (FLAGS_model_config_path F)
               (path_join (FLAGS_train_dir F) ''model.config'') True,
             Call_Copy (FLAGS_train_config_path F)
               (path_join (FLAGS_train_dir F) ''train.config'') True,
             Call_Copy (FLAGS_input_config_path F)
               (path_join (FLAGS_train_dir F) ''input.config'') True])"
    and "if FLAGS_pipeline_config_path F \<noteq> []
       then isfile (fs w) (path_join (FLAGS_train_dir F) ''pipeline.config'')
       else isfile (fs w) (path_join (FLAGS_train_dir F) ''model.config'') \<and>
            isfile (fs w) (path_join (FLAGS_train_dir F) ''train.config'') \<and>
            isfile (fs w) (path_join (FLAGS_train_dir F) ''input.config'')"
proof -
  let ?w0 = "\<lparr>fs = fs0, trace = []\<rparr>"
  let ?d = "FLAGS_train_dir F"
  from assms(2) obtain u1 wa u2 wb u3 wc loaded wd where
    a: "assert_train_dir F ?w0 = (Inr u1, wa)"
    and r: "reset_train F wa = (Inr u2, wb)"
    and m: "make_train_dir F wb = (Inr u3, wc)"
    and l: "load_configs X F wc = (Inr loaded, wd)"
    and o: "override_n_steps F loaded wd = (Inr configs, w)"
    unfolding configure_def config_resolver_def seq_returns by blast
  from a have "wa = ?w0"
    by (auto simp: assert_train_dir_def ret_apply stop_with_apply split: if_splits)
  with r reset_train_no_copies [of F ?w0] have tb: "filter creates_or_copies (trace wb) = []"
    by simp
  from m assms(1) obtain s' where mk: "MakeDirs (fs wb) ?d = Inr s'"
    and wc: "wc = wb\<lparr>trace := trace wb @ [Call_MakeDirs ?d], fs := s'\<rparr>"
    by (auto simp: make_train_dir_def fs_call_returns)
  from wc MakeDirs_result(1) [OF mk] have dc: "isdir (fs wc) ?d" by simp
  from wc tb have tc: "filter creates_or_copies (trace wc) = [Call_MakeDirs ?d]" by simp
  note ov = override_n_steps_returns [OF o]
  show "isdir (fs w) ?d"
  proof (cases "FLAGS_pipeline_config_path F = []")
    case True
    from load_configs_separate_task_0(1) [OF assms(1) True l] dc ov(1) show ?thesis
      by (simp add: isdir_def)
  next
    case False
    from load_configs_combined_task_0(1) [OF assms(1) False l] dc ov(1) show ?thesis
      by (simp add: isdir_def)
  qed
  show "filter creates_or_copies (trace w) =
      Call_MakeDirs ?d #
      (if FLAGS_pipeline_config_path F \<noteq> []
       then [Call_Copy (FLAGS_pipeline_config_path F) (path_join ?d ''pipeline.config'') True]
       else [Call_Copy (FLAGS_model_config_path F) (path_join ?d ''model.config'') True,
             Call_Copy (FLAGS_train_config_path F) (path_join ?d ''train.config'') True,
             Call_Copy (FLAGS_input_config_path F) (path_join ?d ''input.config'') True])"
  proof (cases "FLAGS_pipeline_config_path F = []")
    case True
    from load_configs_separate_task_0(2) [OF assms(1) True l] tc ov(2) True show ?thesis
      by simp
  next
    case False
    from load_configs_combined_task_0(2) [OF assms(1) False l] tc ov(2) False show ?thesis
      by simp
  qed
  show "if FLAGS_pipeline_config_path F \<noteq> []
       then isfile (fs w) (path_join ?d ''pipeline.config'')
       else isfile (fs w) (path_join ?d ''model.config'') \<and>
            isfile (fs w) (path_join ?d ''train.config'') \<and>
            isfile (fs w) (path_join ?d ''input.config'')"
  proof (cases "FLAGS_pipeline_config_path F = []")
    case True
    from load_configs_separate_task_0(3) [OF assms(1) True l] ov(1) True show ?thesis
      by simp
  next
    case False
    from load_configs_combined_task_0(3) [OF assms(1) False l] ov(1) False show ?thesis
      by simp
  qed
qed

text \<open>
  C8, as the claim stands: a task other than task 0 leaves the training directory
  unchanged. It does not: the reset of lines 123 to 125 is not restricted to task 0. Here
  task 1 runs with \<open>reset_train\<close> set on a file system that has the training directory
  \<open>out\<close> with a checkpoint in it, and both are gone afterwards.
\<close>

theorem other_task_deletes_train_dir:
  "FLAGS_task (example_flags\<lparr>FLAGS_task := 1\<rparr>) \<noteq> 0
   \<and> FLAGS_train_dir (example_flags\<lparr>FLAGS_task := 1\<rparr>) = ''out''
   \<and> isdir example_fs ''out'' \<and> isfile example_fs ''out/ckpt''
   \<and> \<not> isdir (fs (snd (main example_externals (example_flags\<lparr>FLAGS_task := 1\<rparr>)
                           Unset example_fs))) ''out''
   \<and> \<not> isfile (fs (snd (main example_externals (example_flags\<lparr>FLAGS_task := 1\<rparr>)
                           Unset example_fs))) ''out/ckpt''"
  by (simp add: run_defs)

text \<open>
  C8, amended. A task other than task 0 never calls \<open>MakeDirs\<close> or \<open>Copy\<close>, and when
  \<open>reset_train\<close> is zero or the training directory does not exist, it leaves the whole
  file system as it was. Task 0, once the configuration is there, has created the
  training directory and made exactly the copies of the mode: the combined file to
  \<open>pipeline.config\<close>, or the three separate files to \<open>model.config\<close>,
  \<open>train.config\<close> and \<open>input.config\<close>, in this order; the directory and the copies
  exist.
\<close>

theorem only_task_0_creates_and_copies:
  "(FLAGS_task F \<noteq> 0 \<longrightarrow>
      list_all (\<lambda>e. \<not> creates_or_copies e) (trace (snd (main X F tfc fs0)))
      \<and> (FLAGS_reset_train F = 0 \<or> \<not> isdir fs0 (FLAGS_train_dir F) \<longrightarrow>
           fs (snd (main X F tfc fs0)) = fs0))
   \<and> (FLAGS_task F = 0 \<longrightarrow>
      (\<forall>configs w. configure X F \<lparr>fs = fs0, trace = []\<rparr> = (Inr configs, w) \<longrightarrow>
         isdir (fs w) (FLAGS_train_dir F)
         \<and> filter creates_or_copies (trace w) =
             Call_MakeDirs (FLAGS_train_dir F) #
             (if FLAGS_pipeline_config_path F \<noteq> []
              then [Call_Copy (FLAGS_pipeline_config_path F)
                      (path_join (FLAGS_train_dir F) ''pipeline.config'') True]
              else [Call_Copy (FLAGS_model_config_path F)
                      (path_join (FLAGS_train_dir F) ''model.config'') True,
                    Call_Copy (FLAGS_train_config_path F)
                      (path_join (FLAGS_train_dir F) ''train.config'') True,
                    Call_Copy (FLAGS_input_config_path F)
                      (path_join (FLAGS_train_dir F) ''input.config'') True])
         \<and> (if FLAGS_pipeline_config_path F \<noteq> []
            then isfile (fs w) (path_join (FLAGS_train_dir F) ''pipeline.config'')
            else isfile (fs w) (path_join (FLAGS_train_dir F) ''model.config'') \<and>
                 isfile (fs w) (path_join (FLAGS_train_dir F) ''train.config'') \<and>
                 isfile (fs w) (path_join (FLAGS_train_dir F) ''input.config''))))"
proof (intro conjI impI allI)
  assume t: "FLAGS_task F \<noteq> 0"
  have "emits_only (\<lambda>e. \<not> creates_or_copies e) (seq (prepare X F tfc) (delegate X))"
    unfolding main_parts using t by (intro emits_only_structure; simp)
  then show "list_all (\<lambda>e. \<not> creates_or_copies e) (trace (snd (main X F tfc fs0)))"
    by (rule main_emits_only)
  assume "FLAGS_reset_train F = 0 \<or> \<not> isdir fs0 (FLAGS_train_dir F)"
  with t show "fs (snd (main X F tfc fs0)) = fs0"
    by (rule main_keeps_fs)
next
  fix configs w
  assume t: "FLAGS_task F = 0"
    and c: "configure X F \<lparr>fs = fs0, trace = []\<rparr> = (Inr configs, w)"
  note r = configure_task_0 [OF t c]
  from r(1) show "isdir (fs w) (FLAGS_train_dir F)" .
  from r(2) show "filter creates_or_copies (trace w) =
             Call_MakeDirs (FLAGS_train_dir F) #
             (if FLAGS_pipeline_config_path F \<noteq> []
              then [Call_Copy (FLAGS_pipeline_config_path F)
                      (path_join (FLAGS_train_dir F) ''pipeline.config'') True]
              else [Call_Copy (FLAGS_model_config_path F)
                      (path_join (FLAGS_train_dir F) ''model.config'') True,
                    Call_Copy (FLAGS_train_config_path F)
                      (path_join (FLAGS_train_dir F) ''train.config'') True,
                    Call_Copy (FLAGS_input_config_path F)
                      (path_join (FLAGS_train_dir F) ''input.config'') True])" .
  from r(3) show "if FLAGS_pipeline_config_path F \<noteq> []
            then isfile (fs w) (path_join (FLAGS_train_dir F) ''pipeline.config'')
            else isfile (fs w) (path_join (FLAGS_train_dir F) ''model.config'') \<and>
                 isfile (fs w) (path_join (FLAGS_train_dir F) ''train.config'') \<and>
                 isfile (fs w) (path_join (FLAGS_train_dir F) ''input.config'')" .
qed

theorem only_task_0_creates_and_copies_witness:
  "fs (snd (main example_externals (example_flags\<lparr>FLAGS_task := 1, FLAGS_reset_train := 0\<rparr>)
              Unset example_fs)) = example_fs
   \<and> isdir (fs (snd (configure example_externals example_flags
                        \<lparr>fs = example_fs, trace = []\<rparr>))) ''out''
   \<and> isfile (fs (snd (configure example_externals example_flags
                        \<lparr>fs = example_fs, trace = []\<rparr>))) ''out/pipeline.config''"
proof -
  let ?F1 = "example_flags\<lparr>FLAGS_task := 1, FLAGS_reset_train := 0\<rparr>"
  let ?w0 = "\<lparr>fs = example_fs, trace = []\<rparr>"
  have 1: "FLAGS_task ?F1 \<noteq> 0" "FLAGS_reset_train ?F1 = 0" by simp_all
  have 2: "FLAGS_task example_flags = 0" "FLAGS_pipeline_config_path example_flags \<noteq> []"
    "FLAGS_train_dir example_flags = ''out''"
    by (simp_all add: example_flags_def)
  have 3: "configure example_externals example_flags ?w0 =
      (Inr (projr (fst (configure example_externals example_flags ?w0))),
       snd (configure example_externals example_flags ?w0))"
    by (simp add: run_defs)
  from only_task_0_creates_and_copies [of ?F1 example_externals Unset example_fs] 1
  have a: "fs (snd (main example_externals ?F1 Unset example_fs)) = example_fs" by blast
  from only_task_0_creates_and_copies [of example_flags example_externals Unset example_fs]
    2(1) 3
  have "isdir (fs (snd (configure example_externals example_flags ?w0)))
          (FLAGS_train_dir example_flags)
     \<and> (if FLAGS_pipeline_config_path example_flags \<noteq> []
        then isfile (fs (snd (configure example_externals example_flags ?w0)))
               (path_join (FLAGS_train_dir example_flags) ''pipeline.config'')
        else isfile (fs (snd (configure example_externals example_flags ?w0)))
               (path_join (FLAGS_train_dir example_flags) ''model.config'') \<and>
             isfile (fs (snd (configure example_externals example_flags ?w0)))
               (path_join (FLAGS_train_dir example_flags) ''train.config'') \<and>
             isfile (fs (snd (configure example_externals example_flags ?w0)))
               (path_join (FLAGS_train_dir example_flags) ''input.config''))"
    by blast
  with 2 a show ?thesis by (simp add: path_join_def)
qed

end
